theory Spec2Isabelle
  imports Main
begin

section \<open>Python values, exceptions and the outside world\<close>

text \<open>
  The values that flow through \<^verbatim>\<open>server.py\<close> are JSON documents decoded by
  \<^verbatim>\<open>res.json()\<close>, strings, and whatever the collaborators of the tools hand back.
  One datatype covers them; \<open>PNone\<close> is Python's \<^verbatim>\<open>None\<close> (and JSON's null),
  a dictionary is an association list read with \<open>map_of\<close>. Strings are byte strings
  (the UTF-8 encoding of the Python text).
\<close>

datatype pyval =
    PNone
  | PBool bool
  | PInt int
  | PStr string
  | PList "pyval list"
  | PDict "(string \<times> pyval) list"

text \<open>Python's truth test, as used by \<^verbatim>\<open>if not x\<close>.\<close>

fun truthy :: "pyval \<Rightarrow> bool" where
  "truthy PNone = False"
| "truthy (PBool b) = b"
| "truthy (PInt i) = (i \<noteq> 0)"
| "truthy (PStr s) = (s \<noteq> [])"
| "truthy (PList xs) = (xs \<noteq> [])"
| "truthy (PDict kvs) = (kvs \<noteq> [])"

fun type_name :: "pyval \<Rightarrow> string" where
  "type_name PNone = ''NoneType''"
| "type_name (PBool b) = ''bool''"
| "type_name (PInt i) = ''int''"
| "type_name (PStr s) = ''str''"
| "type_name (PList xs) = ''list''"
| "type_name (PDict kvs) = ''dict''"

text \<open>
  The exceptions of the module: \<open>RequestException\<close> is
  \<^verbatim>\<open>requests.RequestException\<close> with all its subclasses (the argument is the text
  that \<^verbatim>\<open>str(e)\<close> gives), \<open>AttributeError t a\<close> is raised by \<^verbatim>\<open>x.a\<close> on a value of
  type \<open>t\<close> that has no attribute \<open>a\<close>, and \<open>Exception\<close> is the plain
  \<^verbatim>\<open>Exception(msg)\<close> that the tools raise themselves.
\<close>

datatype exc =
    RequestException string
  | AttributeError string string
  | Exception string

text \<open>\<^verbatim>\<open>d.get(k, default)\<close>: only a dictionary has the method.\<close>

definition dict_get :: "(string \<times> pyval) list \<Rightarrow> string \<Rightarrow> pyval \<Rightarrow> pyval" where
  "dict_get kvs k d = (case map_of kvs k of None \<Rightarrow> d | Some v \<Rightarrow> v)"

fun py_get :: "pyval \<Rightarrow> string \<Rightarrow> pyval \<Rightarrow> exc + pyval" where
  "py_get (PDict kvs) k d = Inr (dict_get kvs k d)"
| "py_get v k d = Inl (AttributeError (type_name v) ''get'')"

text \<open>
  What one HTTP request to the solver comes to: \<^verbatim>\<open>requests.post\<close> raises (no
  connection, the 20 second timeout; the argument is the text of the exception), or it
  returns a response. Of the response the module uses the status code, the reason
  phrase and the URL, from which \<^verbatim>\<open>raise_for_status\<close> builds the text of its
  HTTPError, and the body. The body is a JSON document, or it is not, and then it comes
  with the message that the JSON decoder gives for it.
\<close>

datatype body =
    NotJson string
  | Json pyval

datatype http_result =
    Raises string
  | Response nat string string body

text \<open>
  Everything the module does to the world is recorded in order: an HTTP POST with its URL
  and JSON payload, a \<^verbatim>\<open>time.sleep\<close>, a \<^verbatim>\<open>print\<close>, and a call of one of the imported
  query functions with its arguments.
\<close>

datatype event =
    Post string pyval
  | Sleep nat
  | Print string
  | Upstream string "pyval list"

text \<open>
  The world: the process environment, the solver as the sequence of its answers (the
  \<open>n\<close>-th request made is answered by \<open>solver n\<close>), the number of requests made so
  far, and the record of events.
\<close>

record world =
  environ :: "string \<Rightarrow> string option"
  solver :: "nat \<Rightarrow> http_result"
  sent :: nat
  trace :: "event list"

definition py_print :: "string \<Rightarrow> world \<Rightarrow> world" where
  "py_print msg w = w\<lparr>trace := trace w @ [Print msg]\<rparr>"

definition time_sleep :: "nat \<Rightarrow> world \<Rightarrow> world" where
  "time_sleep n w = w\<lparr>trace := trace w @ [Sleep n]\<rparr>"

definition call_upstream :: "string \<Rightarrow> pyval list \<Rightarrow> world \<Rightarrow> world" where
  "call_upstream f args w = w\<lparr>trace := trace w @ [Upstream f args]\<rparr>"

section \<open>The requests library\<close>

text \<open>
  \<^verbatim>\<open>requests.post(url, json=payload, timeout=20)\<close>: the request is recorded and
  counted, and the solver's next answer comes back. An answer \<open>Raises e\<close> is the
  call raising.
\<close>

definition requests_post :: "string \<Rightarrow> pyval \<Rightarrow> world \<Rightarrow> http_result \<times> world" where
  "requests_post url payload w =
     (solver w (sent w), w\<lparr>sent := Suc (sent w), trace := trace w @ [Post url payload]\<rparr>)"

text \<open>The decimal digits of a number, as \<^verbatim>\<open>str\<close> and an f-string write it.\<close>

definition digit_char :: "nat \<Rightarrow> char" where
  "digit_char n = ''0123456789'' ! (n mod 10)"

fun str_nat :: "nat \<Rightarrow> string" where
  "str_nat n =
     (if n < 10 then [digit_char n] else str_nat (n div 10) @ [digit_char (n mod 10)])"

declare str_nat.simps [simp del]

text \<open>
  \<^verbatim>\<open>res.raise_for_status()\<close>: an HTTPError, a \<^verbatim>\<open>RequestException\<close>, for the status
  codes 400 to 599. Its text is
  \<^verbatim>\<open>f"{status_code} Client Error: {reason} for url: {url}"\<close> for the codes below 500
  and the same with \<^verbatim>\<open>Server Error\<close> from 500 on.
\<close>

definition raise_for_status :: "nat \<Rightarrow> string \<Rightarrow> string \<Rightarrow> exc + unit" where
  "raise_for_status status_code reason response_url =
     (if 400 \<le> status_code \<and> status_code < 500 then
        Inl (RequestException
               (str_nat status_code @ '' Client Error: '' @ reason
                  @ '' for url: '' @ response_url))
      else if 500 \<le> status_code \<and> status_code < 600 then
        Inl (RequestException
               (str_nat status_code @ '' Server Error: '' @ reason
                  @ '' for url: '' @ response_url))
      else Inr ())"

text \<open>
  \<^verbatim>\<open>res.json()\<close>: the decoded body. For a body that is not JSON, requests (2.27 and
  later) raises \<^verbatim>\<open>requests.exceptions.JSONDecodeError\<close>, a \<^verbatim>\<open>RequestException\<close>,
  with the decoder's message as its text.
\<close>

definition response_json :: "body \<Rightarrow> exc + pyval" where
  "response_json b =
     (case b of NotJson msg \<Rightarrow> Inl (RequestException msg) | Json v \<Rightarrow> Inr v)"

text \<open>
  The three lines that both requests of the broker consist of:
  \<^verbatim>\<open>res = requests.post(url, json=payload, timeout=20); res.raise_for_status(); resp = res.json()\<close>
\<close>

definition post_json :: "string \<Rightarrow> pyval \<Rightarrow> world \<Rightarrow> (exc + pyval) \<times> world" where
  "post_json url payload w =
     (case requests_post url payload w of
        (Raises e, w') \<Rightarrow> (Inl (RequestException e), w')
      | (Response status_code reason response_url b, w') \<Rightarrow>
          (case raise_for_status status_code reason response_url of
             Inl e \<Rightarrow> (Inl e, w')
           | Inr u \<Rightarrow> (response_json b, w')))"

section \<open>urllib.parse.quote\<close>

text \<open>
  \<^verbatim>\<open>urllib.parse.quote(string)\<close> with its default \<^verbatim>\<open>safe='/'\<close>: the bytes of the
  UTF-8 encoding that are ASCII letters, digits, one of \<^verbatim>\<open>_.-~\<close>, or in \<open>safe\<close> are
  kept; every other byte becomes \<^verbatim>\<open>%XX\<close> with upper-case hexadecimal digits.
\<close>

definition always_safe :: "char \<Rightarrow> bool" where
  "always_safe c \<longleftrightarrow>
     c \<in> set (''ABCDEFGHIJKLMNOPQRSTUVWXYZ'' @ ''abcdefghijklmnopqrstuvwxyz''
               @ ''0123456789'' @ ''_.-~'')"

definition hex_digit :: "nat \<Rightarrow> char" where
  "hex_digit n = ''0123456789ABCDEF'' ! (n mod 16)"

definition quote_byte :: "string \<Rightarrow> char \<Rightarrow> string" where
  "quote_byte safe c =
     (if always_safe c \<or> c \<in> set safe then [c]
      else [CHR ''%'', hex_digit (of_char c div 16), hex_digit (of_char c mod 16)])"

definition quote :: "string \<Rightarrow> string" where
  "quote s = concat (map (quote_byte ''/'') s)"

section \<open>The token broker\<close>

text \<open>The payload of the submission (line 82) and of a poll (line 92).\<close>

definition create_task_payload :: "string \<Rightarrow> string \<Rightarrow> pyval" where
  "create_task_payload api_key site_url =
     PDict [(''clientKey'', PStr api_key),
            (''task'', PDict [(''type'', PStr ''AntiTurnstileTaskProxyLess''),
                              (''websiteKey'', PStr ''0x4AAAAAAAAzi9ITzSN9xKMi''),
                              (''websiteURL'', PStr site_url)])]"

definition get_task_result_payload :: "string \<Rightarrow> pyval \<Rightarrow> pyval" where
  "get_task_result_payload api_key task_id =
     PDict [(''clientKey'', PStr api_key), (''taskId'', task_id)]"

text \<open>
  Lines 96 to 99, what the loop does with a decoded answer: \<open>Inr (Some v)\<close> is
  \<^verbatim>\<open>return v\<close>, \<open>Inr None\<close> is falling through to the next round, \<open>Inl e\<close> is
  the exception \<open>e\<close>.
\<close>

definition read_task_result :: "pyval \<Rightarrow> exc + pyval option" where
  "read_task_result resp =
     (case py_get resp ''status'' PNone of
        Inl e \<Rightarrow> Inl e
      | Inr status \<Rightarrow>
          if status = PStr ''ready'' then
            (case py_get resp ''solution'' (PDict []) of
               Inl e \<Rightarrow> Inl e
             | Inr solution \<Rightarrow>
                 (case py_get solution ''token'' PNone of
                    Inl e \<Rightarrow> Inl e
                  | Inr token \<Rightarrow> Inr (Some token)))
          else
            (case py_get resp ''status'' PNone of
               Inl e \<Rightarrow> Inl e
             | Inr status' \<Rightarrow>
                 if status' = PStr ''failed'' then Inr (Some PNone)
                 else
                   (case py_get resp ''errorId'' PNone of
                      Inl e \<Rightarrow> Inl e
                    | Inr error_id \<Rightarrow>
                        if truthy error_id then Inr (Some PNone) else Inr None)))"

text \<open>One round of the loop, lines 91 to 99.\<close>

definition poll_once :: "string \<Rightarrow> pyval \<Rightarrow> world \<Rightarrow> (exc + pyval option) \<times> world" where
  "poll_once api_key task_id w =
     (case post_json ''https://api.capsolver.com/getTaskResult''
             (get_task_result_payload api_key task_id) (time_sleep 2 w) of
        (Inl e, w') \<Rightarrow> (Inl e, w')
      | (Inr resp, w') \<Rightarrow> (read_task_result resp, w'))"

text \<open>
  The \<^verbatim>\<open>while True\<close> loop of \<^verbatim>\<open>get_capsolver_token\<close>. It has no bound: against a
  solver that never leaves the pending state it does not return, which is the value
  \<open>None\<close> here. A result \<open>Some (Inl e, w)\<close> is the exception \<open>e\<close> leaving the loop,
  \<open>Some (Inr v, w)\<close> is \<^verbatim>\<open>return v\<close>.
\<close>

partial_function (option) poll_loop ::
  "string \<Rightarrow> pyval \<Rightarrow> world \<Rightarrow> ((exc + pyval) \<times> world) option" where
  "poll_loop api_key task_id w =
     (case poll_once api_key task_id w of
        (Inl e, w') \<Rightarrow> Some (Inl e, w')
      | (Inr (Some v), w') \<Rightarrow> Some (Inr v, w')
      | (Inr None, w') \<Rightarrow> poll_loop api_key task_id w')"

text \<open>The body of the \<^verbatim>\<open>try\<close> block, lines 84 to 99.\<close>

definition try_block :: "string \<Rightarrow> string \<Rightarrow> world \<Rightarrow> ((exc + pyval) \<times> world) option" where
  "try_block api_key site_url w =
     (case post_json ''https://api.capsolver.com/createTask''
             (create_task_payload api_key site_url) w of
        (Inl e, w') \<Rightarrow> Some (Inl e, w')
      | (Inr resp, w') \<Rightarrow>
          (case py_get resp ''taskId'' PNone of
             Inl e \<Rightarrow> Some (Inl e, w')
           | Inr task_id \<Rightarrow>
               if \<not> truthy task_id then Some (Inr PNone, w')
               else poll_loop api_key task_id w'))"

text \<open>
  \<^verbatim>\<open>except requests.RequestException as e\<close>: the message is printed and \<^verbatim>\<open>None\<close>
  returned; any other exception goes on to the caller.
\<close>

fun except_request :: "(exc + pyval) \<times> world \<Rightarrow> (exc + pyval) \<times> world" where
  "except_request (Inl (RequestException e), w) =
     (Inr PNone, py_print (''Error communicating with CapSolver: '' @ e) w)"
| "except_request (r, w) = (r, w)"

definition get_capsolver_token :: "string \<Rightarrow> world \<Rightarrow> ((exc + pyval) \<times> world) option" where
  "get_capsolver_token site_url w =
     (case environ w ''CAPSOLVER_API_KEY'' of
        None \<Rightarrow>
          Some (Inr PNone, py_print ''Error: CAPSOLVER_API_KEY environment variable not set.'' w)
      | Some api_key \<Rightarrow>
          if api_key = [] then
            Some (Inr PNone, py_print ''Error: CAPSOLVER_API_KEY environment variable not set.'' w)
          else map_option except_request (try_block api_key site_url w))"

definition get_token_for_url :: "string \<Rightarrow> world \<Rightarrow> ((exc + pyval) \<times> world) option" where
  "get_token_for_url site_url w =
     (case get_capsolver_token site_url w of
        None \<Rightarrow> None
      | Some (Inl e, w') \<Rightarrow> Some (Inl e, w')
      | Some (Inr token, w') \<Rightarrow>
          if \<not> truthy token then
            Some (Inl (Exception (''Failed to get verification token for URL: '' @ site_url)), w')
          else Some (Inr token, w'))"

section \<open>The tools\<close>

text \<open>
  The query functions imported from \<^verbatim>\<open>seo_mcp.backlinks\<close>, \<^verbatim>\<open>seo_mcp.keywords\<close> and
  \<^verbatim>\<open>seo_mcp.traffic\<close> are parameters of the tools: each returns a value or raises.
  A tool records each call it makes of one of them, with the arguments it passes; what
  the function does on its own behalf lies outside this module. The default values of
  the tools' arguments (\<^verbatim>\<open>country="us"\<close>, \<^verbatim>\<open>search_engine="Google"\<close>,
  \<^verbatim>\<open>country="None"\<close>, \<^verbatim>\<open>mode="subdomains"\<close>) are supplied by the caller here.
\<close>

record collaborators =
  get_signature_and_overview :: "pyval \<Rightarrow> string \<Rightarrow> exc + pyval \<times> pyval \<times> pyval"
  get_backlinks :: "pyval \<Rightarrow> pyval \<Rightarrow> string \<Rightarrow> exc + pyval"
  get_keyword_ideas :: "pyval \<Rightarrow> string \<Rightarrow> string \<Rightarrow> string \<Rightarrow> exc + pyval"
  check_traffic :: "pyval \<Rightarrow> string \<Rightarrow> string \<Rightarrow> string \<Rightarrow> exc + pyval"
  get_keyword_difficulty :: "pyval \<Rightarrow> string \<Rightarrow> string \<Rightarrow> exc + pyval"

definition get_backlinks_list ::
  "collaborators \<Rightarrow> string \<Rightarrow> world \<Rightarrow> ((exc + pyval) \<times> world) option" where
  "get_backlinks_list c domain w =
     (case get_token_for_url
             (''https://ahrefs.com/backlink-checker/?input='' @ domain @ ''&mode=subdomains'') w of
        None \<Rightarrow> None
      | Some (Inl e, w1) \<Rightarrow> Some (Inl e, w1)
      | Some (Inr token, w1) \<Rightarrow>
          (let w2 = call_upstream ''get_signature_and_overview'' [token, PStr domain] w1
           in case get_signature_and_overview c token domain of
                Inl e \<Rightarrow> Some (Inl e, w2)
              | Inr (signature, valid_until, overview_data) \<Rightarrow>
                  if \<not> truthy signature \<or> \<not> truthy valid_until then
                    Some (Inl (Exception (''Failed to get signature for domain: '' @ domain)), w2)
                  else
                    (let w3 = call_upstream ''get_backlinks''
                                [signature, valid_until, PStr domain] w2
                     in case get_backlinks c signature valid_until domain of
                          Inl e \<Rightarrow> Some (Inl e, w3)
                        | Inr backlinks \<Rightarrow>
                            Some (Inr (PDict [(''overview'', overview_data),
                                              (''backlinks'', backlinks)]), w3))))"

definition keyword_generator ::
  "collaborators \<Rightarrow> string \<Rightarrow> string \<Rightarrow> string \<Rightarrow> world \<Rightarrow> ((exc + pyval) \<times> world) option" where
  "keyword_generator c keyword country search_engine w =
     (case get_token_for_url
             (''https://ahrefs.com/keyword-generator/?country='' @ country
                @ ''&input='' @ quote keyword) w of
        None \<Rightarrow> None
      | Some (Inl e, w1) \<Rightarrow> Some (Inl e, w1)
      | Some (Inr token, w1) \<Rightarrow>
          Some (get_keyword_ideas c token keyword country search_engine,
                call_upstream ''get_keyword_ideas''
                  [token, PStr keyword, PStr country, PStr search_engine] w1))"

definition get_traffic ::
  "collaborators \<Rightarrow> string \<Rightarrow> string \<Rightarrow> string \<Rightarrow> world \<Rightarrow> ((exc + pyval) \<times> world) option" where
  "get_traffic c domain_or_url country mode w =
     (case get_token_for_url
             (''https://ahrefs.com/traffic-checker/?input='' @ domain_or_url
                @ ''&mode='' @ mode) w of
        None \<Rightarrow> None
      | Some (Inl e, w1) \<Rightarrow> Some (Inl e, w1)
      | Some (Inr token, w1) \<Rightarrow>
          Some (check_traffic c token domain_or_url mode country,
                call_upstream ''check_traffic''
                  [token, PStr domain_or_url, PStr mode, PStr country] w1))"

definition keyword_difficulty ::
  "collaborators \<Rightarrow> string \<Rightarrow> string \<Rightarrow> world \<Rightarrow> ((exc + pyval) \<times> world) option" where
  "keyword_difficulty c keyword country w =
     (case get_token_for_url
             (''https://ahrefs.com/keyword-difficulty/?country='' @ country
                @ ''&input='' @ quote keyword) w of
        None \<Rightarrow> None
      | Some (Inl e, w1) \<Rightarrow> Some (Inl e, w1)
      | Some (Inr token, w1) \<Rightarrow>
          Some (get_keyword_difficulty c token keyword country,
                call_upstream ''get_keyword_difficulty''
                  [token, PStr keyword, PStr country] w1))"

section \<open>Notions used in the statements\<close>

text \<open>
  What an answer of the solver is decoded to by \<^verbatim>\<open>raise_for_status\<close> and
  \<^verbatim>\<open>json\<close>, and what a round of the loop (lines 96 to 99) then makes of it.
\<close>

definition decode_answer :: "http_result \<Rightarrow> exc + pyval" where
  "decode_answer r =
     (case r of
        Raises e \<Rightarrow> Inl (RequestException e)
      | Response status_code reason response_url b \<Rightarrow>
          (case raise_for_status status_code reason response_url of
             Inl e \<Rightarrow> Inl e
           | Inr u \<Rightarrow> response_json b))"

definition poll_answer :: "http_result \<Rightarrow> exc + pyval option" where
  "poll_answer r =
     (case decode_answer r of
        Inl e \<Rightarrow> Inl e
      | Inr resp \<Rightarrow> read_task_result resp)"

text \<open>
  The shapes of answers that the statements speak of. A transport error is
  \<^verbatim>\<open>requests.post\<close> raising, an HTTP error status, or a body that is not JSON;
  \<open>transport_error\<close> gives its message. Every other answer carries a JSON document,
  and \<open>answer_object\<close> gives its fields when that document is an object.
\<close>

definition transport_error :: "http_result \<Rightarrow> string option" where
  "transport_error r =
     (case r of
        Raises e \<Rightarrow> Some e
      | Response status_code reason response_url b \<Rightarrow>
          if 400 \<le> status_code \<and> status_code < 500 then
            Some (str_nat status_code @ '' Client Error: '' @ reason
                    @ '' for url: '' @ response_url)
          else if 500 \<le> status_code \<and> status_code < 600 then
            Some (str_nat status_code @ '' Server Error: '' @ reason
                    @ '' for url: '' @ response_url)
          else (case b of NotJson msg \<Rightarrow> Some msg | Json v \<Rightarrow> None))"

fun answer_object :: "http_result \<Rightarrow> (string \<times> pyval) list option" where
  "answer_object (Response status_code reason response_url (Json (PDict kvs))) =
     (if 400 \<le> status_code \<and> status_code < 600 then None else Some kvs)"
| "answer_object r = None"

text \<open>The submission is answered with the task identifier \<open>task_id\<close>.\<close>

definition task_created :: "pyval \<Rightarrow> http_result \<Rightarrow> bool" where
  "task_created task_id r \<longleftrightarrow>
     (case answer_object r of
        None \<Rightarrow> False
      | Some kvs \<Rightarrow> dict_get kvs ''taskId'' PNone = task_id \<and> truthy task_id)"

text \<open>The submission is answered with an object that has no task identifier.\<close>

definition no_task_id :: "http_result \<Rightarrow> bool" where
  "no_task_id r \<longleftrightarrow>
     (case answer_object r of
        None \<Rightarrow> False
      | Some kvs \<Rightarrow> \<not> truthy (dict_get kvs ''taskId'' PNone))"

text \<open>
  A poll is answered with an object whose status is neither ready nor failed and that
  bears no error indication; \<open>pending\<close> is the case of the status \<^verbatim>\<open>pending\<close>.
\<close>

definition still_working :: "http_result \<Rightarrow> bool" where
  "still_working r \<longleftrightarrow>
     (case answer_object r of
        None \<Rightarrow> False
      | Some kvs \<Rightarrow>
          dict_get kvs ''status'' PNone \<noteq> PStr ''ready''
          \<and> dict_get kvs ''status'' PNone \<noteq> PStr ''failed''
          \<and> \<not> truthy (dict_get kvs ''errorId'' PNone))"

definition pending :: "http_result \<Rightarrow> bool" where
  "pending r \<longleftrightarrow>
     (case answer_object r of
        None \<Rightarrow> False
      | Some kvs \<Rightarrow>
          dict_get kvs ''status'' PNone = PStr ''pending''
          \<and> \<not> truthy (dict_get kvs ''errorId'' PNone))"

text \<open>A poll is answered with the status ready and the token \<open>token\<close> in the solution.\<close>

definition ready_with :: "pyval \<Rightarrow> http_result \<Rightarrow> bool" where
  "ready_with token r \<longleftrightarrow>
     (case answer_object r of
        None \<Rightarrow> False
      | Some kvs \<Rightarrow>
          dict_get kvs ''status'' PNone = PStr ''ready''
          \<and> (case dict_get kvs ''solution'' (PDict []) of
                PDict sol \<Rightarrow> dict_get sol ''token'' PNone = token
              | v \<Rightarrow> False))"

text \<open>A poll is answered with the status failed.\<close>

definition status_failed :: "http_result \<Rightarrow> bool" where
  "status_failed r \<longleftrightarrow>
     (case answer_object r of
        None \<Rightarrow> False
      | Some kvs \<Rightarrow> dict_get kvs ''status'' PNone = PStr ''failed'')"

text \<open>A poll is answered with an object that bears an error indication.\<close>

definition error_bearing :: "http_result \<Rightarrow> bool" where
  "error_bearing r \<longleftrightarrow>
     (case answer_object r of
        None \<Rightarrow> False
      | Some kvs \<Rightarrow> truthy (dict_get kvs ''errorId'' PNone))"

definition status_ready :: "http_result \<Rightarrow> bool" where
  "status_ready r \<longleftrightarrow>
     (case answer_object r of
        None \<Rightarrow> False
      | Some kvs \<Rightarrow> dict_get kvs ''status'' PNone = PStr ''ready'')"

text \<open>The world after \<open>m\<close> rounds of the loop: \<open>m\<close> waits of 2, each followed by a poll.\<close>

definition polled :: "string \<Rightarrow> pyval \<Rightarrow> nat \<Rightarrow> world \<Rightarrow> world" where
  "polled api_key task_id m w =
     w\<lparr>sent := sent w + m,
       trace := trace w @ concat (replicate m
                  [Sleep 2,
                   Post ''https://api.capsolver.com/getTaskResult''
                     (get_task_result_payload api_key task_id)])\<rparr>"

text \<open>The world after the submission.\<close>

definition submitted :: "string \<Rightarrow> string \<Rightarrow> world \<Rightarrow> world" where
  "submitted api_key site_url w =
     w\<lparr>sent := Suc (sent w),
       trace := trace w @ [Post ''https://api.capsolver.com/createTask''
                             (create_task_payload api_key site_url)]\<rparr>"

text \<open>The calls of query functions among the events.\<close>

fun is_upstream :: "event \<Rightarrow> bool" where
  "is_upstream (Upstream f args) = True"
| "is_upstream e = False"

definition upstream_calls :: "event list \<Rightarrow> event list" where
  "upstream_calls evs = filter is_upstream evs"


text \<open>
  A tool run \<open>res\<close> that asked the broker for a token for \<open>url\<close> in the world \<open>w\<close>
  keeps to the order token first, query after: it returns only if the broker does, no
  query function is called while the broker runs, an exception leaving the broker or a
  missing token ends the run there (the missing token with the error that names
  \<open>url\<close>), and only with a token in hand does the run go on, its first call of a query
  function being given that token.
\<close>

definition token_gate :: "string \<Rightarrow> world \<Rightarrow> ((exc + pyval) \<times> world) option \<Rightarrow> bool" where
  "token_gate url w res \<longleftrightarrow>
     (case get_capsolver_token url w of
        None \<Rightarrow> res = None
      | Some (r, w1) \<Rightarrow>
          upstream_calls (trace w1) = upstream_calls (trace w)
          \<and> (case r of
                Inl e \<Rightarrow> res = Some (Inl e, w1)
              | Inr token \<Rightarrow>
                  if truthy token then
                    (case res of
                       None \<Rightarrow> False
                     | Some (r', w') \<Rightarrow>
                         (\<exists>f args evs.
                            w' = w1\<lparr>trace := trace w1 @ Upstream f (token # args) # evs\<rparr>
                            \<and> list_all is_upstream evs))
                  else
                    res = Some (Inl (Exception
                            (''Failed to get verification token for URL: '' @ url)), w1)))"

section \<open>Test doubles\<close>

text \<open>
  An environment that holds the credential, and one that does not; a solver double that
  replays a script of answers over and over; the answers of the scripts.
\<close>

definition key_env :: "string \<Rightarrow> string option" where
  "key_env v = (if v = ''CAPSOLVER_API_KEY'' then Some ''secret'' else None)"

definition empty_env :: "string \<Rightarrow> string option" where
  "empty_env v = None"

definition scripted :: "http_result list \<Rightarrow> nat \<Rightarrow> http_result" where
  "scripted rs n = (if rs = [] then Raises ''no answer'' else rs ! (n mod length rs))"

definition test_world :: "(string \<Rightarrow> string option) \<Rightarrow> http_result list \<Rightarrow> world" where
  "test_world env rs = \<lparr>environ = env, solver = scripted rs, sent = 0, trace = []\<rparr>"

definition task_answer :: http_result where
  "task_answer =
     Response 200 ''OK'' ''https://api.capsolver.com/createTask''
       (Json (PDict [(''errorId'', PInt 0), (''taskId'', PStr ''task-1'')]))"

definition no_task_answer :: http_result where
  "no_task_answer =
     Response 200 ''OK'' ''https://api.capsolver.com/createTask''
       (Json (PDict [(''errorId'', PInt 1)]))"

definition pending_answer :: http_result where
  "pending_answer =
     Response 200 ''OK'' ''https://api.capsolver.com/getTaskResult''
       (Json (PDict [(''errorId'', PInt 0), (''status'', PStr ''pending'')]))"

definition ready_answer :: http_result where
  "ready_answer =
     Response 200 ''OK'' ''https://api.capsolver.com/getTaskResult''
       (Json (PDict [(''errorId'', PInt 0), (''status'', PStr ''ready''),
                     (''solution'', PDict [(''token'', PStr ''tok-1'')])]))"

definition failed_answer :: http_result where
  "failed_answer =
     Response 200 ''OK'' ''https://api.capsolver.com/getTaskResult''
       (Json (PDict [(''status'', PStr ''failed'')]))"

definition error_answer :: http_result where
  "error_answer =
     Response 200 ''OK'' ''https://api.capsolver.com/getTaskResult''
       (Json (PDict [(''errorId'', PInt 1)]))"

definition ready_error_answer :: http_result where
  "ready_error_answer =
     Response 200 ''OK'' ''https://api.capsolver.com/getTaskResult''
       (Json (PDict [(''errorId'', PInt 1), (''status'', PStr ''ready''),
                     (''solution'', PDict [(''token'', PStr ''tok-1'')])]))"

definition unavailable_answer :: http_result where
  "unavailable_answer =
     Response 503 ''Service Unavailable'' ''https://api.capsolver.com/createTask''
       (NotJson ''Expecting value: line 1 column 1 (char 0)'')"

definition not_json_answer :: http_result where
  "not_json_answer =
     Response 200 ''OK'' ''https://api.capsolver.com/getTaskResult''
       (NotJson ''Expecting value: line 1 column 1 (char 0)'')"

text \<open>Query functions that answer with fixed values, and a variant that finds no signature.\<close>

definition fixed_collaborators :: collaborators where
  "fixed_collaborators =
     \<lparr>get_signature_and_overview =
        (\<lambda>token domain. Inr (PStr ''sig'', PStr ''2030-01-01'', PDict [(''domainRating'', PInt 50)])),
      get_backlinks =
        (\<lambda>signature valid_until domain. Inr (PList [PStr ''https://a.example/'', PStr ''https://b.example/''])),
      get_keyword_ideas =
        (\<lambda>token keyword country search_engine. Inr (PList [PStr ''idea one'', PStr ''idea two''])),
      check_traffic =
        (\<lambda>token domain_or_url mode country. Inr (PDict [(''traffic'', PInt 1200)])),
      get_keyword_difficulty =
        (\<lambda>token keyword country. Inr (PDict [(''difficulty'', PInt 37)]))\<rparr>"

definition unsigned_collaborators :: collaborators where
  "unsigned_collaborators =
     fixed_collaborators\<lparr>get_signature_and_overview := (\<lambda>token domain. Inr (PNone, PNone, PNone))\<rparr>"


section \<open>The loop, answer by answer\<close>

lemma poll_once_eq:
  "poll_once k t w = (poll_answer (solver w (sent w)), polled k t (Suc 0) w)"
  by (simp add: poll_once_def post_json_def requests_post_def time_sleep_def poll_answer_def decode_answer_def
      polled_def split: http_result.splits sum.splits)

lemma polled_0: "polled k t 0 w = w"
  by (simp add: polled_def)

lemma polled_polled: "polled k t m (polled k t n w) = polled k t (n + m) w"
  by (simp add: polled_def replicate_add)

lemma polled_Suc: "polled k t (Suc m) w = polled k t m (polled k t (Suc 0) w)"
  by (simp add: polled_polled)

lemma polled_fields:
  "environ (polled k t m w) = environ w"
  "solver (polled k t m w) = solver w"
  "sent (polled k t m w) = sent w + m"
  by (simp_all add: polled_def)

lemma poll_loop_step:
  "poll_loop k t w =
     (case poll_answer (solver w (sent w)) of
        Inl e \<Rightarrow> Some (Inl e, polled k t (Suc 0) w)
      | Inr (Some v) \<Rightarrow> Some (Inr v, polled k t (Suc 0) w)
      | Inr None \<Rightarrow> poll_loop k t (polled k t (Suc 0) w))"
  by (subst poll_loop.simps) (simp add: poll_once_eq)

lemma poll_loop_skip:
  "\<forall>i<n. poll_answer (solver w (sent w + i)) = Inr None \<Longrightarrow>
   poll_loop k t w = poll_loop k t (polled k t n w)"
proof (induction n arbitrary: w)
  case 0
  show ?case by (simp add: polled_0)
next
  case (Suc n)
  from Suc.prems have first: "poll_answer (solver w (sent w)) = Inr None"
    by (metis add.right_neutral zero_less_Suc)
  have rest: "\<forall>i<n. poll_answer (solver (polled k t (Suc 0) w) (sent (polled k t (Suc 0) w) + i)) = Inr None"
    using Suc.prems by (auto simp: polled_fields)
  have "poll_loop k t w = poll_loop k t (polled k t (Suc 0) w)"
    by (subst poll_loop_step) (simp add: first)
  also have "\<dots> = poll_loop k t (polled k t n (polled k t (Suc 0) w))"
    by (rule Suc.IH [OF rest])
  finally show ?case by (simp add: polled_polled)
qed

lemma poll_loop_returns:
  assumes "\<forall>i<n. poll_answer (solver w (sent w + i)) = Inr None"
    and "poll_answer (solver w (sent w + n)) = Inr (Some v)"
  shows "poll_loop k t w = Some (Inr v, polled k t (Suc n) w)"
proof -
  have "poll_loop k t w = poll_loop k t (polled k t n w)"
    by (rule poll_loop_skip [OF assms(1)])
  also have "\<dots> = Some (Inr v, polled k t (Suc 0) (polled k t n w))"
    by (subst poll_loop_step) (simp add: polled_fields assms(2))
  finally show ?thesis by (simp add: polled_polled)
qed

lemma poll_loop_raises:
  assumes "\<forall>i<n. poll_answer (solver w (sent w + i)) = Inr None"
    and "poll_answer (solver w (sent w + n)) = Inl e"
  shows "poll_loop k t w = Some (Inl e, polled k t (Suc n) w)"
proof -
  have "poll_loop k t w = poll_loop k t (polled k t n w)"
    by (rule poll_loop_skip [OF assms(1)])
  also have "\<dots> = Some (Inl e, polled k t (Suc 0) (polled k t n w))"
    by (subst poll_loop_step) (simp add: polled_fields assms(2))
  finally show ?thesis by (simp add: polled_polled)
qed

lemma poll_loop_Some_aux:
  assumes "poll_loop k t w = Some y"
  shows "\<exists>n. (\<forall>i<n. poll_answer (solver w (sent w + i)) = Inr None)
     \<and> poll_answer (solver w (sent w + n)) = (case fst y of Inl e \<Rightarrow> Inl e | Inr v \<Rightarrow> Inr (Some v))
     \<and> snd y = polled k t (Suc n) w"
  using assms
proof (induct rule: poll_loop.raw_induct [rotated 1, consumes 1])
  case (1 f k t w y)
  show ?case
  proof (cases "poll_answer (solver w (sent w))")
    case (Inl e)
    with 1(2) have "fst y = Inl e" "snd y = polled k t (Suc 0) w"
      by (auto simp: poll_once_eq)
    with Inl show ?thesis by (intro exI [of _ 0]) simp
  next
    case (Inr a)
    show ?thesis
    proof (cases a)
      case (Some v)
      with Inr 1(2) have "fst y = Inr v" "snd y = polled k t (Suc 0) w"
        by (auto simp: poll_once_eq)
      with Inr Some show ?thesis by (intro exI [of _ 0]) simp
    next
      case None
      with Inr 1(2) have "f k t (polled k t (Suc 0) w) = Some y" by (simp add: poll_once_eq)
      from 1(1) [OF this] have
        "\<exists>n. (\<forall>i<n. poll_answer (solver w (Suc (sent w + i))) = Inr None)
           \<and> poll_answer (solver w (Suc (sent w + n))) = (case fst y of Inl e \<Rightarrow> Inl e | Inr v \<Rightarrow> Inr (Some v))
           \<and> snd y = polled k t (Suc (Suc n)) w"
        by (simp add: polled_fields polled_polled)
      then obtain n where
        n: "\<forall>i<n. poll_answer (solver w (Suc (sent w + i))) = Inr None"
           "poll_answer (solver w (Suc (sent w + n))) = (case fst y of Inl e \<Rightarrow> Inl e | Inr v \<Rightarrow> Inr (Some v))"
           "snd y = polled k t (Suc (Suc n)) w"
        by (elim exE conjE)
      have "\<forall>i<Suc n. poll_answer (solver w (sent w + i)) = Inr None"
      proof (intro allI impI)
        fix i assume "i < Suc n"
        then show "poll_answer (solver w (sent w + i)) = Inr None"
          using n(1) Inr None by (cases i) auto
      qed
      then show ?thesis using n(2,3) by (intro exI [of _ "Suc n"]) simp
    qed
  qed
qed

lemma poll_loop_Some:
  assumes "poll_loop k t w = Some (r, w')"
  shows "\<exists>n. (\<forall>i<n. poll_answer (solver w (sent w + i)) = Inr None)
            \<and> poll_answer (solver w (sent w + n)) = (case r of Inl e \<Rightarrow> Inl e | Inr v \<Rightarrow> Inr (Some v))
            \<and> w' = polled k t (Suc n) w"
  using poll_loop_Some_aux [OF assms] by simp


section \<open>Answers\<close>

lemma post_json_eq:
  "post_json url p w =
     (decode_answer (solver w (sent w)),
      w\<lparr>sent := Suc (sent w), trace := trace w @ [Post url p]\<rparr>)"
  by (simp add: post_json_def requests_post_def decode_answer_def
      split: http_result.splits sum.splits)

lemma decode_transport_error:
  "transport_error r = Some e \<Longrightarrow> decode_answer r = Inl (RequestException e)"
  by (auto simp: transport_error_def decode_answer_def raise_for_status_def response_json_def
      split: http_result.splits body.splits if_splits)

lemma decode_answer_Inl:
  "decode_answer r = Inl x \<Longrightarrow> \<exists>e. x = RequestException e \<and> transport_error r = Some e"
  by (auto simp: transport_error_def decode_answer_def raise_for_status_def response_json_def
      split: http_result.splits body.splits if_splits)

lemma answer_object_Some:
  "answer_object r = Some kvs \<Longrightarrow>
   \<exists>code reason u. r = Response code reason u (Json (PDict kvs))
      \<and> \<not> (400 \<le> code \<and> code < 600)"
  by (cases r rule: answer_object.cases) (auto split: if_splits)

lemma decode_answer_object:
  assumes "answer_object r = Some kvs"
  shows "decode_answer r = Inr (PDict kvs)"
proof -
  from answer_object_Some [OF assms] obtain code reason u where
    "r = Response code reason u (Json (PDict kvs))" and "\<not> (400 \<le> code \<and> code < 600)"
    by blast
  then show ?thesis
    by (auto simp: decode_answer_def raise_for_status_def response_json_def)
qed

lemma decode_answer_dict:
  "decode_answer r = Inr (PDict kvs) \<Longrightarrow> answer_object r = Some kvs"
  by (cases r rule: answer_object.cases)
     (auto simp: decode_answer_def raise_for_status_def response_json_def
       split: if_splits body.splits)

lemma read_task_result_dict:
  "read_task_result (PDict kvs) =
     (if dict_get kvs ''status'' PNone = PStr ''ready'' then
        (case py_get (dict_get kvs ''solution'' (PDict [])) ''token'' PNone of
           Inl e \<Rightarrow> Inl e
         | Inr token \<Rightarrow> Inr (Some token))
      else if dict_get kvs ''status'' PNone = PStr ''failed'' then Inr (Some PNone)
      else if truthy (dict_get kvs ''errorId'' PNone) then Inr (Some PNone)
      else Inr None)"
  by (simp add: read_task_result_def)

lemma read_task_result_other:
  "\<forall>kvs. resp \<noteq> PDict kvs \<Longrightarrow>
   read_task_result resp = Inl (AttributeError (type_name resp) ''get'')"
  by (cases resp) (simp_all add: read_task_result_def)

lemma poll_answer_still_working: "still_working r \<Longrightarrow> poll_answer r = Inr None"
  by (auto simp: still_working_def poll_answer_def read_task_result_dict decode_answer_object
      split: option.splits)

lemma pending_still_working: "pending r \<Longrightarrow> still_working r"
  by (auto simp: pending_def still_working_def split: option.splits)

lemma poll_answer_ready: "ready_with token r \<Longrightarrow> poll_answer r = Inr (Some token)"
  by (auto simp: ready_with_def poll_answer_def read_task_result_dict decode_answer_object
      split: option.splits pyval.splits)

lemma poll_answer_failed: "status_failed r \<Longrightarrow> poll_answer r = Inr (Some PNone)"
  by (auto simp: status_failed_def poll_answer_def read_task_result_dict decode_answer_object
      split: option.splits)

lemma poll_answer_error_bearing:
  "error_bearing r \<Longrightarrow> \<not> status_ready r \<Longrightarrow> poll_answer r = Inr (Some PNone)"
  by (auto simp: error_bearing_def status_ready_def poll_answer_def read_task_result_dict
      decode_answer_object split: option.splits)

lemma poll_answer_transport_error:
  "transport_error r = Some e \<Longrightarrow> poll_answer r = Inl (RequestException e)"
  by (simp add: poll_answer_def decode_transport_error)

lemma read_task_result_no_request_exception:
  "read_task_result resp \<noteq> Inl (RequestException e)"
proof (cases resp)
  case (PDict kvs)
  then show ?thesis
    by (cases "dict_get kvs ''solution'' (PDict [])")
       (simp_all add: read_task_result_dict)
qed (simp_all add: read_task_result_def)

lemma poll_answer_RequestException:
  "poll_answer r = Inl (RequestException e) \<Longrightarrow> transport_error r = Some e"
  by (auto simp: poll_answer_def read_task_result_no_request_exception
      split: sum.splits dest: decode_answer_Inl)

lemma poll_answer_None: "poll_answer r = Inr None \<Longrightarrow> still_working r"
proof -
  assume a: "poll_answer r = Inr None"
  then obtain resp where d: "decode_answer r = Inr resp" and rt: "read_task_result resp = Inr None"
    by (auto simp: poll_answer_def split: sum.splits)
  from rt obtain kvs where resp: "resp = PDict kvs"
    by (cases resp) (simp_all add: read_task_result_def)
  from rt resp have "dict_get kvs ''status'' PNone \<noteq> PStr ''ready''
      \<and> dict_get kvs ''status'' PNone \<noteq> PStr ''failed''
      \<and> \<not> truthy (dict_get kvs ''errorId'' PNone)"
    by (auto simp: read_task_result_dict split: if_splits sum.splits)
  with decode_answer_dict [OF d [unfolded resp]] show ?thesis
    by (simp add: still_working_def)
qed

lemma poll_answer_token:
  assumes "poll_answer r = Inr (Some token)" and "token \<noteq> PNone"
  shows "ready_with token r"
proof -
  from assms(1) obtain resp where d: "decode_answer r = Inr resp"
      and rt: "read_task_result resp = Inr (Some token)"
    by (auto simp: poll_answer_def split: sum.splits)
  from rt obtain kvs where resp: "resp = PDict kvs"
    by (cases resp) (simp_all add: read_task_result_def)
  from rt resp assms(2) have "dict_get kvs ''status'' PNone = PStr ''ready''
      \<and> (case dict_get kvs ''solution'' (PDict []) of
            PDict sol \<Rightarrow> dict_get sol ''token'' PNone = token | v \<Rightarrow> False)"
    by (cases "dict_get kvs ''solution'' (PDict [])")
       (auto simp: read_task_result_dict split: if_splits)
  with decode_answer_dict [OF d [unfolded resp]] show ?thesis
    by (simp add: ready_with_def)
qed

section \<open>The submission\<close>

lemma submitted_fields:
  "environ (submitted k u w) = environ w"
  "solver (submitted k u w) = solver w"
  "sent (submitted k u w) = Suc (sent w)"
  "trace (submitted k u w) =
     trace w @ [Post ''https://api.capsolver.com/createTask'' (create_task_payload k u)]"
  by (simp_all add: submitted_def)

lemma try_block_eq:
  "try_block k u w =
     (case decode_answer (solver w (sent w)) of
        Inl e \<Rightarrow> Some (Inl e, submitted k u w)
      | Inr resp \<Rightarrow>
          (case py_get resp ''taskId'' PNone of
             Inl e \<Rightarrow> Some (Inl e, submitted k u w)
           | Inr task_id \<Rightarrow>
               if \<not> truthy task_id then Some (Inr PNone, submitted k u w)
               else poll_loop k task_id (submitted k u w)))"
  by (simp add: try_block_def post_json_eq submitted_def split: sum.splits)

lemma try_block_task_created:
  "task_created task_id (solver w (sent w)) \<Longrightarrow>
   try_block k u w = poll_loop k task_id (submitted k u w)"
  by (auto simp: try_block_eq task_created_def decode_answer_object split: option.splits)

lemma try_block_no_task_id:
  "no_task_id (solver w (sent w)) \<Longrightarrow> try_block k u w = Some (Inr PNone, submitted k u w)"
  by (auto simp: try_block_eq no_task_id_def decode_answer_object split: option.splits)

lemma try_block_transport_error:
  "transport_error (solver w (sent w)) = Some e \<Longrightarrow>
   try_block k u w = Some (Inl (RequestException e), submitted k u w)"
  by (simp add: try_block_eq decode_transport_error)

lemma broker_with_key:
  "environ w ''CAPSOLVER_API_KEY'' = Some k \<Longrightarrow> k \<noteq> [] \<Longrightarrow>
   get_capsolver_token u w = map_option except_request (try_block k u w)"
  by (simp add: get_capsolver_token_def)

lemma broker_without_key:
  "environ w ''CAPSOLVER_API_KEY'' = None \<or> environ w ''CAPSOLVER_API_KEY'' = Some [] \<Longrightarrow>
   get_capsolver_token u w =
     Some (Inr PNone, py_print ''Error: CAPSOLVER_API_KEY environment variable not set.'' w)"
  by (auto simp: get_capsolver_token_def)


section \<open>The broker, run by run\<close>

lemma try_block_returns:
  assumes "task_created task_id (solver w (sent w))"
    and "\<forall>i<n. poll_answer (solver w (Suc (sent w + i))) = Inr None"
    and "poll_answer (solver w (Suc (sent w + n))) = Inr (Some v)"
  shows "try_block k u w = Some (Inr v, polled k task_id (Suc n) (submitted k u w))"
  using assms(2,3)
  by (simp add: try_block_task_created [OF assms(1)] poll_loop_returns submitted_fields)

lemma try_block_raises:
  assumes "task_created task_id (solver w (sent w))"
    and "\<forall>i<n. poll_answer (solver w (Suc (sent w + i))) = Inr None"
    and "poll_answer (solver w (Suc (sent w + n))) = Inl e"
  shows "try_block k u w = Some (Inl e, polled k task_id (Suc n) (submitted k u w))"
  using assms(2,3)
  by (simp add: try_block_task_created [OF assms(1)] poll_loop_raises submitted_fields)

text \<open>Every way the try block can end.\<close>

lemma try_block_Some:
  assumes "try_block k u w = Some (r, w')"
  shows "(w' = submitted k u w \<and>
            ((\<exists>e. r = Inl (RequestException e) \<and> transport_error (solver w (sent w)) = Some e)
             \<or> (\<exists>t. r = Inl (AttributeError t ''get''))
             \<or> (r = Inr PNone \<and> no_task_id (solver w (sent w)))))
       \<or> (\<exists>task_id n. task_created task_id (solver w (sent w))
             \<and> (\<forall>i<n. poll_answer (solver w (Suc (sent w + i))) = Inr None)
             \<and> poll_answer (solver w (Suc (sent w + n)))
                 = (case r of Inl e \<Rightarrow> Inl e | Inr v \<Rightarrow> Inr (Some v))
             \<and> w' = polled k task_id (Suc n) (submitted k u w))"
proof (cases "decode_answer (solver w (sent w))")
  case (Inl x)
  with decode_answer_Inl [OF Inl] assms show ?thesis
    by (auto simp: try_block_eq)
next
  case (Inr resp)
  show ?thesis
  proof (cases resp)
    case (PDict kvs)
    with Inr have obj: "answer_object (solver w (sent w)) = Some kvs"
      by (simp add: decode_answer_dict)
    show ?thesis
    proof (cases "truthy (dict_get kvs ''taskId'' PNone)")
      case False
      with Inr PDict obj assms show ?thesis
        by (simp add: try_block_eq no_task_id_def)
    next
      case True
      with obj have tc: "task_created (dict_get kvs ''taskId'' PNone) (solver w (sent w))"
        by (simp add: task_created_def)
      from assms have "poll_loop k (dict_get kvs ''taskId'' PNone) (submitted k u w) = Some (r, w')"
        by (simp add: try_block_task_created [OF tc])
      from poll_loop_Some [OF this] tc show ?thesis
        by (auto simp: submitted_fields)
    qed
  qed (use Inr assms in \<open>auto simp: try_block_eq\<close>)
qed


lemma still_working_polls:
  "\<forall>i<n. still_working (solver w (sent w + 1 + i)) \<Longrightarrow>
   \<forall>i<n. poll_answer (solver w (Suc (sent w + i))) = Inr None"
  by (simp add: poll_answer_still_working)

lemma polled_submitted:
  "polled k t m (submitted k u w) =
     w\<lparr>sent := sent w + m + 1,
       trace := trace w @ Post ''https://api.capsolver.com/createTask'' (create_task_payload k u)
                  # concat (replicate m
                      [Sleep 2,
                       Post ''https://api.capsolver.com/getTaskResult''
                         (get_task_result_payload k t)])\<rparr>"
  by (simp add: polled_def submitted_def)

lemma broker_returns:
  assumes "environ w ''CAPSOLVER_API_KEY'' = Some k" and "k \<noteq> []"
    and "task_created task_id (solver w (sent w))"
    and "\<forall>i<n. still_working (solver w (sent w + 1 + i))"
    and "poll_answer (solver w (sent w + 1 + n)) = Inr (Some v)"
  shows "get_capsolver_token u w = Some (Inr v, polled k task_id (Suc n) (submitted k u w))"
proof -
  have "try_block k u w = Some (Inr v, polled k task_id (Suc n) (submitted k u w))"
    using assms(5) by (intro try_block_returns assms(3) still_working_polls [OF assms(4)]) simp
  then show ?thesis
    by (simp add: broker_with_key [OF assms(1,2)])
qed

lemma broker_catches:
  assumes "environ w ''CAPSOLVER_API_KEY'' = Some k" and "k \<noteq> []"
    and "task_created task_id (solver w (sent w))"
    and "\<forall>i<n. still_working (solver w (sent w + 1 + i))"
    and "transport_error (solver w (sent w + 1 + n)) = Some e"
  shows "get_capsolver_token u w =
           Some (Inr PNone, py_print (''Error communicating with CapSolver: '' @ e)
                              (polled k task_id (Suc n) (submitted k u w)))"
proof -
  have "poll_answer (solver w (Suc (sent w + n))) = Inl (RequestException e)"
    using assms(5) by (simp add: poll_answer_transport_error)
  then have "try_block k u w =
      Some (Inl (RequestException e), polled k task_id (Suc n) (submitted k u w))"
    by (intro try_block_raises assms(3) still_working_polls [OF assms(4)])
  then show ?thesis
    by (simp add: broker_with_key [OF assms(1,2)])
qed

lemma broker_catches_submission:
  assumes "environ w ''CAPSOLVER_API_KEY'' = Some k" and "k \<noteq> []"
    and "transport_error (solver w (sent w)) = Some e"
  shows "get_capsolver_token u w =
           Some (Inr PNone, py_print (''Error communicating with CapSolver: '' @ e)
                              (submitted k u w))"
  by (simp add: broker_with_key [OF assms(1,2)] try_block_transport_error [OF assms(3)])

lemma broker_no_task_id:
  assumes "environ w ''CAPSOLVER_API_KEY'' = Some k" and "k \<noteq> []"
    and "no_task_id (solver w (sent w))"
  shows "get_capsolver_token u w = Some (Inr PNone, submitted k u w)"
  by (simp add: broker_with_key [OF assms(1,2)] try_block_no_task_id [OF assms(3)])

text \<open>Every way the broker can end when the credential is there.\<close>

lemma broker_Some:
  assumes "environ w ''CAPSOLVER_API_KEY'' = Some k" and "k \<noteq> []"
    and "get_capsolver_token u w = Some (r, w')"
  shows "\<exists>r0 w0. try_block k u w = Some (r0, w0) \<and> (r, w') = except_request (r0, w0)"
  using assms(3) by (auto simp: broker_with_key [OF assms(1,2)])

lemma except_request_no_request_exception:
  "except_request (r0, w0) = (r, w') \<Longrightarrow> r \<noteq> Inl (RequestException e)"
  by (cases "(r0, w0)" rule: except_request.cases) auto

lemma broker_no_request_exception:
  assumes "get_capsolver_token u w = Some (r, w')"
  shows "r \<noteq> Inl (RequestException e)"
proof (cases "environ w ''CAPSOLVER_API_KEY''")
  case None
  with assms show ?thesis by (auto simp: get_capsolver_token_def)
next
  case (Some k)
  show ?thesis
  proof (cases "k = []")
    case True
    with Some assms show ?thesis by (auto simp: get_capsolver_token_def)
  next
    case False
    from broker_Some [OF Some False assms] show ?thesis
      by (metis except_request_no_request_exception)
  qed
qed

lemma broker_token_only_when_ready:
  assumes "environ w ''CAPSOLVER_API_KEY'' = Some k" and "k \<noteq> []"
    and "get_capsolver_token u w = Some (Inr token, w')" and "token \<noteq> PNone"
  shows "\<exists>task_id n. task_created task_id (solver w (sent w))
           \<and> (\<forall>i<n. still_working (solver w (sent w + 1 + i)))
           \<and> ready_with token (solver w (sent w + 1 + n))
           \<and> w' = polled k task_id (Suc n) (submitted k u w)"
proof -
  from broker_Some [OF assms(1-3)] obtain r0 w0 where
    tb: "try_block k u w = Some (r0, w0)" and ex: "(Inr token, w') = except_request (r0, w0)"
    by blast
  from ex assms(4) have "r0 = Inr token" "w0 = w'"
    by (cases "(r0, w0)" rule: except_request.cases; simp)+
  with tb have "try_block k u w = Some (Inr token, w')" by simp
  from try_block_Some [OF this] assms(4) obtain task_id n where
    tc: "task_created task_id (solver w (sent w))"
    and pe: "\<forall>i<n. poll_answer (solver w (Suc (sent w + i))) = Inr None"
    and la: "poll_answer (solver w (Suc (sent w + n))) = Inr (Some token)"
    and w': "w' = polled k task_id (Suc n) (submitted k u w)"
    by auto
  from pe have "\<forall>i<n. still_working (solver w (sent w + 1 + i))"
    by (simp add: poll_answer_None)
  moreover from la assms(4) have "ready_with token (solver w (sent w + 1 + n))"
    by (simp add: poll_answer_token)
  ultimately show ?thesis using tc w' by blast
qed


section \<open>The test doubles, evaluated\<close>

lemma test_world_fields:
  "environ (test_world env rs) = env"
  "solver (test_world env rs) = scripted rs"
  "sent (test_world env rs) = 0"
  "trace (test_world env rs) = []"
  by (simp_all add: test_world_def)

lemma key_env_key: "key_env ''CAPSOLVER_API_KEY'' = Some ''secret''"
  by (simp add: key_env_def)

lemma scripted_2:
  "scripted [a, b] 0 = a" "scripted [a, b] (Suc 0) = b"
  by (simp_all add: scripted_def)

lemma scripted_3:
  "scripted [a, b, c] 0 = a" "scripted [a, b, c] (Suc 0) = b"
  "scripted [a, b, c] (Suc (Suc 0)) = c"
  by (simp_all add: scripted_def)

lemma scripted_period: "scripted rs (length rs + n) = scripted rs n"
  by (simp add: scripted_def)

lemma answers:
  "task_created (PStr ''task-1'') task_answer"
  "no_task_id no_task_answer"
  "pending pending_answer"
  "ready_with (PStr ''tok-1'') ready_answer"
  "status_failed failed_answer"
  "error_bearing error_answer" "\<not> status_ready error_answer"
  "error_bearing ready_error_answer" "ready_with (PStr ''tok-1'') ready_error_answer"
  "transport_error (Raises e) = Some e"
  by (simp_all add: task_created_def no_task_id_def pending_def ready_with_def
      status_failed_def error_bearing_def status_ready_def transport_error_def
      task_answer_def no_task_answer_def pending_answer_def ready_answer_def
      failed_answer_def error_answer_def ready_error_answer_def dict_get_def)

lemma more_answers:
  "\<not> still_working ready_answer" "still_working pending_answer"
  by (simp_all add: still_working_def ready_answer_def pending_answer_def dict_get_def)

lemma str_nat_503: "str_nat 503 = ''503''"
  by (simp add: str_nat.simps digit_char_def)

lemma error_answers:
  "transport_error unavailable_answer =
     Some ''503 Server Error: Service Unavailable for url: https://api.capsolver.com/createTask''"
  "transport_error not_json_answer = Some ''Expecting value: line 1 column 1 (char 0)''"
  by (simp_all add: transport_error_def unavailable_answer_def not_json_answer_def str_nat_503)

section \<open>The claims about the token broker\<close>

text \<open>
  Claim C3. With the credential set, a submission answered with a task identifier, \<open>n\<close>
  polls answered with the status pending and the next poll answered with the status ready
  and a token, \<^verbatim>\<open>get_capsolver_token\<close> returns exactly that token. It has then made
  the submission and exactly \<open>n + 1\<close> polls, one per answer, each preceded by a wait of 2,
  and nothing else. Pending then ready is \<open>n = 1\<close>: two polls.
\<close>

theorem pending_then_ready_returns_token:
  assumes "environ w ''CAPSOLVER_API_KEY'' = Some api_key" and "api_key \<noteq> []"
    and "task_created task_id (solver w (sent w))"
    and "\<forall>i<n. pending (solver w (sent w + 1 + i))"
    and "ready_with token (solver w (sent w + 1 + n))"
  shows "get_capsolver_token site_url w =
     Some (Inr token,
           w\<lparr>sent := sent w + n + 2,
             trace := trace w
               @ Post ''https://api.capsolver.com/createTask''
                   (create_task_payload api_key site_url)
               # concat (replicate (n + 1)
                   [Sleep 2,
                    Post ''https://api.capsolver.com/getTaskResult''
                      (get_task_result_payload api_key task_id)])\<rparr>)"
proof -
  from assms(4) have "\<forall>i<n. still_working (solver w (sent w + 1 + i))"
    by (simp add: pending_still_working)
  moreover from assms(5) have "poll_answer (solver w (sent w + 1 + n)) = Inr (Some token)"
    by (rule poll_answer_ready)
  ultimately have "get_capsolver_token site_url w =
      Some (Inr token, polled api_key task_id (Suc n) (submitted api_key site_url w))"
    by (rule broker_returns [OF assms(1-3)])
  then show ?thesis
    by (simp add: polled_submitted)
qed

theorem pending_then_ready_returns_token_witness:
  "get_capsolver_token ''https://ahrefs.com/traffic-checker/?input=example.com&mode=exact''
     (test_world key_env [task_answer, pending_answer, ready_answer]) =
   Some (Inr (PStr ''tok-1''),
         \<lparr>environ = key_env, solver = scripted [task_answer, pending_answer, ready_answer],
          sent = 3,
          trace =
            [Post ''https://api.capsolver.com/createTask''
               (create_task_payload ''secret''
                  ''https://ahrefs.com/traffic-checker/?input=example.com&mode=exact''),
             Sleep 2,
             Post ''https://api.capsolver.com/getTaskResult''
               (get_task_result_payload ''secret'' (PStr ''task-1'')),
             Sleep 2,
             Post ''https://api.capsolver.com/getTaskResult''
               (get_task_result_payload ''secret'' (PStr ''task-1''))]\<rparr>)"
proof -
  let ?w = "test_world key_env [task_answer, pending_answer, ready_answer]"
  have key: "environ ?w ''CAPSOLVER_API_KEY'' = Some ''secret''" "''secret'' \<noteq> []"
    by (simp_all add: test_world_fields key_env_key)
  have first: "task_created (PStr ''task-1'') (solver ?w (sent ?w))"
    by (simp add: test_world_fields scripted_3 answers)
  have polls: "\<forall>i<1. pending (solver ?w (sent ?w + 1 + i))"
    by (simp add: test_world_fields scripted_3 answers)
  have last: "ready_with (PStr ''tok-1'') (solver ?w (sent ?w + 1 + 1))"
    by (simp add: test_world_fields scripted_3 answers)
  from pending_then_ready_returns_token [OF key first polls last] show ?thesis
    by (simp add: test_world_def numeral_2_eq_2)
qed


lemma scripted_1: "scripted [a] n = a"
  by (simp add: scripted_def)

text \<open>
  Claim C5. A transport error is \<^verbatim>\<open>requests.post\<close> raising, an HTTP error status
  raised by \<^verbatim>\<open>raise_for_status\<close>, or a body that \<^verbatim>\<open>json\<close> cannot decode. When the
  submission meets one, or a poll does after any number of polls that went on,
  \<^verbatim>\<open>get_capsolver_token\<close> prints the message and returns \<^verbatim>\<open>None\<close>; and whatever the
  solver answers, no \<^verbatim>\<open>RequestException\<close> leaves \<^verbatim>\<open>get_capsolver_token\<close>.
\<close>

theorem transport_errors_are_caught:
  assumes "environ w ''CAPSOLVER_API_KEY'' = Some api_key" and "api_key \<noteq> []"
  shows
    "(transport_error (solver w (sent w)) = Some e \<longrightarrow>
        get_capsolver_token site_url w =
          Some (Inr PNone,
                py_print (''Error communicating with CapSolver: '' @ e)
                  (submitted api_key site_url w)))
     \<and> (task_created task_id (solver w (sent w))
          \<and> (\<forall>i<n. still_working (solver w (sent w + 1 + i)))
          \<and> transport_error (solver w (sent w + 1 + n)) = Some e \<longrightarrow>
        get_capsolver_token site_url w =
          Some (Inr PNone,
                py_print (''Error communicating with CapSolver: '' @ e)
                  (polled api_key task_id (Suc n) (submitted api_key site_url w))))
     \<and> (\<forall>r w' e'. get_capsolver_token site_url w = Some (r, w') \<longrightarrow>
          r \<noteq> Inl (RequestException e'))"
proof (intro conjI impI allI)
  assume "transport_error (solver w (sent w)) = Some e"
  then show "get_capsolver_token site_url w =
      Some (Inr PNone,
            py_print (''Error communicating with CapSolver: '' @ e)
              (submitted api_key site_url w))"
    by (rule broker_catches_submission [OF assms])
next
  assume a: "task_created task_id (solver w (sent w))
      \<and> (\<forall>i<n. still_working (solver w (sent w + 1 + i)))
      \<and> transport_error (solver w (sent w + 1 + n)) = Some e"
  show "get_capsolver_token site_url w =
      Some (Inr PNone,
            py_print (''Error communicating with CapSolver: '' @ e)
              (polled api_key task_id (Suc n) (submitted api_key site_url w)))"
    using a by (intro broker_catches [OF assms]) simp_all
next
  fix r w' e'
  assume "get_capsolver_token site_url w = Some (r, w')"
  then show "r \<noteq> Inl (RequestException e')"
    by (rule broker_no_request_exception)
qed

theorem transport_errors_are_caught_witness:
  "get_capsolver_token ''https://ahrefs.com/backlink-checker/?input=example.com&mode=subdomains''
     (test_world key_env [Raises ''connection refused'']) =
   Some (Inr PNone,
         \<lparr>environ = key_env, solver = scripted [Raises ''connection refused''], sent = 1,
          trace =
            [Post ''https://api.capsolver.com/createTask''
               (create_task_payload ''secret''
                  ''https://ahrefs.com/backlink-checker/?input=example.com&mode=subdomains''),
             Print ''Error communicating with CapSolver: connection refused'']\<rparr>)
   \<and> get_capsolver_token ''https://ahrefs.com/backlink-checker/?input=example.com&mode=subdomains''
     (test_world key_env [task_answer, pending_answer, Raises ''timed out'']) =
   Some (Inr PNone,
         \<lparr>environ = key_env, solver = scripted [task_answer, pending_answer, Raises ''timed out''],
          sent = 3,
          trace =
            [Post ''https://api.capsolver.com/createTask''
               (create_task_payload ''secret''
                  ''https://ahrefs.com/backlink-checker/?input=example.com&mode=subdomains''),
             Sleep 2,
             Post ''https://api.capsolver.com/getTaskResult''
               (get_task_result_payload ''secret'' (PStr ''task-1'')),
             Sleep 2,
             Post ''https://api.capsolver.com/getTaskResult''
               (get_task_result_payload ''secret'' (PStr ''task-1'')),
             Print ''Error communicating with CapSolver: timed out'']\<rparr>)
   \<and> get_capsolver_token ''https://ahrefs.com/backlink-checker/?input=example.com&mode=subdomains''
     (test_world key_env [unavailable_answer]) =
   Some (Inr PNone,
         \<lparr>environ = key_env, solver = scripted [unavailable_answer], sent = 1,
          trace =
            [Post ''https://api.capsolver.com/createTask''
               (create_task_payload ''secret''
                  ''https://ahrefs.com/backlink-checker/?input=example.com&mode=subdomains''),
             Print ''Error communicating with CapSolver: 503 Server Error: Service Unavailable for url: https://api.capsolver.com/createTask'']\<rparr>)
   \<and> get_capsolver_token ''https://ahrefs.com/backlink-checker/?input=example.com&mode=subdomains''
     (test_world key_env [task_answer, not_json_answer]) =
   Some (Inr PNone,
         \<lparr>environ = key_env, solver = scripted [task_answer, not_json_answer], sent = 2,
          trace =
            [Post ''https://api.capsolver.com/createTask''
               (create_task_payload ''secret''
                  ''https://ahrefs.com/backlink-checker/?input=example.com&mode=subdomains''),
             Sleep 2,
             Post ''https://api.capsolver.com/getTaskResult''
               (get_task_result_payload ''secret'' (PStr ''task-1'')),
             Print ''Error communicating with CapSolver: Expecting value: line 1 column 1 (char 0)'']\<rparr>)"
proof (intro conjI)
  let ?u = "''https://ahrefs.com/backlink-checker/?input=example.com&mode=subdomains''"
  let ?w = "test_world key_env [Raises ''connection refused'']"
  have key: "environ ?w ''CAPSOLVER_API_KEY'' = Some ''secret''" "''secret'' \<noteq> []"
    by (simp_all add: test_world_fields key_env_key)
  have "transport_error (solver ?w (sent ?w)) = Some ''connection refused''"
    by (simp add: test_world_fields scripted_1 answers)
  with transport_errors_are_caught [OF key, of "''connection refused''" ?u]
  show "get_capsolver_token ?u ?w =
   Some (Inr PNone,
         \<lparr>environ = key_env, solver = scripted [Raises ''connection refused''], sent = 1,
          trace =
            [Post ''https://api.capsolver.com/createTask'' (create_task_payload ''secret'' ?u),
             Print ''Error communicating with CapSolver: connection refused'']\<rparr>)"
    by (simp add: test_world_def py_print_def submitted_def)
next
  let ?u = "''https://ahrefs.com/backlink-checker/?input=example.com&mode=subdomains''"
  let ?w = "test_world key_env [task_answer, pending_answer, Raises ''timed out'']"
  have key: "environ ?w ''CAPSOLVER_API_KEY'' = Some ''secret''" "''secret'' \<noteq> []"
    by (simp_all add: test_world_fields key_env_key)
  have "task_created (PStr ''task-1'') (solver ?w (sent ?w))
      \<and> (\<forall>i<1. still_working (solver ?w (sent ?w + 1 + i)))
      \<and> transport_error (solver ?w (sent ?w + 1 + 1)) = Some ''timed out''"
    by (simp add: test_world_fields scripted_3 answers pending_still_working)
  with transport_errors_are_caught [OF key, of "''timed out''" ?u "PStr ''task-1''" 1]
  show "get_capsolver_token ?u ?w =
   Some (Inr PNone,
         \<lparr>environ = key_env, solver = scripted [task_answer, pending_answer, Raises ''timed out''],
          sent = 3,
          trace =
            [Post ''https://api.capsolver.com/createTask'' (create_task_payload ''secret'' ?u),
             Sleep 2,
             Post ''https://api.capsolver.com/getTaskResult''
               (get_task_result_payload ''secret'' (PStr ''task-1'')),
             Sleep 2,
             Post ''https://api.capsolver.com/getTaskResult''
               (get_task_result_payload ''secret'' (PStr ''task-1'')),
             Print ''Error communicating with CapSolver: timed out'']\<rparr>)"
    by (simp add: test_world_def py_print_def polled_submitted numeral_2_eq_2)
next
  let ?u = "''https://ahrefs.com/backlink-checker/?input=example.com&mode=subdomains''"
  let ?w = "test_world key_env [unavailable_answer]"
  have key: "environ ?w ''CAPSOLVER_API_KEY'' = Some ''secret''" "''secret'' \<noteq> []"
    by (simp_all add: test_world_fields key_env_key)
  have "transport_error (solver ?w (sent ?w)) =
      Some ''503 Server Error: Service Unavailable for url: https://api.capsolver.com/createTask''"
    by (simp add: test_world_fields scripted_1 error_answers)
  with transport_errors_are_caught [OF key,
      of "''503 Server Error: Service Unavailable for url: https://api.capsolver.com/createTask''" ?u]
  show "get_capsolver_token ?u ?w =
   Some (Inr PNone,
         \<lparr>environ = key_env, solver = scripted [unavailable_answer], sent = 1,
          trace =
            [Post ''https://api.capsolver.com/createTask'' (create_task_payload ''secret'' ?u),
             Print ''Error communicating with CapSolver: 503 Server Error: Service Unavailable for url: https://api.capsolver.com/createTask'']\<rparr>)"
    by (simp add: test_world_def py_print_def submitted_def)
next
  let ?u = "''https://ahrefs.com/backlink-checker/?input=example.com&mode=subdomains''"
  let ?w = "test_world key_env [task_answer, not_json_answer]"
  have key: "environ ?w ''CAPSOLVER_API_KEY'' = Some ''secret''" "''secret'' \<noteq> []"
    by (simp_all add: test_world_fields key_env_key)
  have "task_created (PStr ''task-1'') (solver ?w (sent ?w))
      \<and> (\<forall>i<0. still_working (solver ?w (sent ?w + 1 + i)))
      \<and> transport_error (solver ?w (sent ?w + 1 + 0)) =
          Some ''Expecting value: line 1 column 1 (char 0)''"
    by (simp add: test_world_fields scripted_2 answers error_answers)
  with transport_errors_are_caught [OF key,
      of "''Expecting value: line 1 column 1 (char 0)''" ?u "PStr ''task-1''" 0]
  show "get_capsolver_token ?u ?w =
   Some (Inr PNone,
         \<lparr>environ = key_env, solver = scripted [task_answer, not_json_answer], sent = 2,
          trace =
            [Post ''https://api.capsolver.com/createTask'' (create_task_payload ''secret'' ?u),
             Sleep 2,
             Post ''https://api.capsolver.com/getTaskResult''
               (get_task_result_payload ''secret'' (PStr ''task-1'')),
             Print ''Error communicating with CapSolver: Expecting value: line 1 column 1 (char 0)'']\<rparr>)"
    by (simp add: test_world_def py_print_def polled_submitted)
qed

text \<open>
  Claim C4, as the code has it. With the credential set, \<^verbatim>\<open>get_capsolver_token\<close>
  returns \<^verbatim>\<open>None\<close> when the submission is answered with a JSON object that has no
  task identifier, and when, after any number of polls that went on, a poll is answered
  with the status failed, or with an error indication and a status other than ready.
  It returns a value other than \<^verbatim>\<open>None\<close> only when a poll was answered with the
  status ready and that value as the token of the solution. The status is looked at
  first (line 96), so an answer with the status ready is a success whatever else it bears:
  the counterexample below is such an answer, bearing an error indication, and its
  token is returned.
\<close>

theorem broker_failure_signals:
  assumes "environ w ''CAPSOLVER_API_KEY'' = Some api_key" and "api_key \<noteq> []"
  shows
    "(no_task_id (solver w (sent w)) \<longrightarrow>
        get_capsolver_token site_url w = Some (Inr PNone, submitted api_key site_url w))
     \<and> (task_created task_id (solver w (sent w))
          \<and> (\<forall>i<n. still_working (solver w (sent w + 1 + i)))
          \<and> (status_failed (solver w (sent w + 1 + n))
               \<or> error_bearing (solver w (sent w + 1 + n))
                  \<and> \<not> status_ready (solver w (sent w + 1 + n))) \<longrightarrow>
        get_capsolver_token site_url w =
          Some (Inr PNone, polled api_key task_id (Suc n) (submitted api_key site_url w)))
     \<and> (\<forall>token w'. get_capsolver_token site_url w = Some (Inr token, w') \<and> token \<noteq> PNone \<longrightarrow>
          (\<exists>task_id' m. task_created task_id' (solver w (sent w))
             \<and> (\<forall>i<m. still_working (solver w (sent w + 1 + i)))
             \<and> ready_with token (solver w (sent w + 1 + m))
             \<and> w' = polled api_key task_id' (Suc m) (submitted api_key site_url w)))"
proof (intro conjI impI allI)
  assume "no_task_id (solver w (sent w))"
  then show "get_capsolver_token site_url w = Some (Inr PNone, submitted api_key site_url w)"
    by (rule broker_no_task_id [OF assms])
next
  assume a: "task_created task_id (solver w (sent w))
      \<and> (\<forall>i<n. still_working (solver w (sent w + 1 + i)))
      \<and> (status_failed (solver w (sent w + 1 + n))
           \<or> error_bearing (solver w (sent w + 1 + n))
              \<and> \<not> status_ready (solver w (sent w + 1 + n)))"
  then have "poll_answer (solver w (sent w + 1 + n)) = Inr (Some PNone)"
    by (auto intro: poll_answer_failed poll_answer_error_bearing)
  with a show "get_capsolver_token site_url w =
      Some (Inr PNone, polled api_key task_id (Suc n) (submitted api_key site_url w))"
    by (intro broker_returns [OF assms]) simp_all
next
  fix token w'
  assume "get_capsolver_token site_url w = Some (Inr token, w') \<and> token \<noteq> PNone"
  then show "\<exists>task_id' m. task_created task_id' (solver w (sent w))
             \<and> (\<forall>i<m. still_working (solver w (sent w + 1 + i)))
             \<and> ready_with token (solver w (sent w + 1 + m))
             \<and> w' = polled api_key task_id' (Suc m) (submitted api_key site_url w)"
    by (intro broker_token_only_when_ready [OF assms]) simp_all
qed

theorem broker_failure_signals_witness:
  "get_capsolver_token ''https://ahrefs.com/keyword-generator/?country=us&input=seo''
     (test_world key_env [no_task_answer]) =
   Some (Inr PNone,
         \<lparr>environ = key_env, solver = scripted [no_task_answer], sent = 1,
          trace =
            [Post ''https://api.capsolver.com/createTask''
               (create_task_payload ''secret''
                  ''https://ahrefs.com/keyword-generator/?country=us&input=seo'')]\<rparr>)
   \<and> get_capsolver_token ''https://ahrefs.com/keyword-generator/?country=us&input=seo''
     (test_world key_env [task_answer, failed_answer]) =
   Some (Inr PNone,
         \<lparr>environ = key_env, solver = scripted [task_answer, failed_answer], sent = 2,
          trace =
            [Post ''https://api.capsolver.com/createTask''
               (create_task_payload ''secret''
                  ''https://ahrefs.com/keyword-generator/?country=us&input=seo''),
             Sleep 2,
             Post ''https://api.capsolver.com/getTaskResult''
               (get_task_result_payload ''secret'' (PStr ''task-1''))]\<rparr>)
   \<and> get_capsolver_token ''https://ahrefs.com/keyword-generator/?country=us&input=seo''
     (test_world key_env [task_answer, pending_answer, error_answer]) =
   Some (Inr PNone,
         \<lparr>environ = key_env, solver = scripted [task_answer, pending_answer, error_answer],
          sent = 3,
          trace =
            [Post ''https://api.capsolver.com/createTask''
               (create_task_payload ''secret''
                  ''https://ahrefs.com/keyword-generator/?country=us&input=seo''),
             Sleep 2,
             Post ''https://api.capsolver.com/getTaskResult''
               (get_task_result_payload ''secret'' (PStr ''task-1'')),
             Sleep 2,
             Post ''https://api.capsolver.com/getTaskResult''
               (get_task_result_payload ''secret'' (PStr ''task-1''))]\<rparr>)"
proof (intro conjI)
  let ?u = "''https://ahrefs.com/keyword-generator/?country=us&input=seo''"
  let ?w = "test_world key_env [no_task_answer]"
  have key: "environ ?w ''CAPSOLVER_API_KEY'' = Some ''secret''" "''secret'' \<noteq> []"
    by (simp_all add: test_world_fields key_env_key)
  have "no_task_id (solver ?w (sent ?w))"
    by (simp add: test_world_fields scripted_1 answers)
  with broker_failure_signals [OF key, of ?u]
  show "get_capsolver_token ?u ?w =
   Some (Inr PNone,
         \<lparr>environ = key_env, solver = scripted [no_task_answer], sent = 1,
          trace =
            [Post ''https://api.capsolver.com/createTask''
               (create_task_payload ''secret'' ?u)]\<rparr>)"
    by (simp add: test_world_def submitted_def)
next
  let ?u = "''https://ahrefs.com/keyword-generator/?country=us&input=seo''"
  let ?w = "test_world key_env [task_answer, failed_answer]"
  have key: "environ ?w ''CAPSOLVER_API_KEY'' = Some ''secret''" "''secret'' \<noteq> []"
    by (simp_all add: test_world_fields key_env_key)
  have "task_created (PStr ''task-1'') (solver ?w (sent ?w))
      \<and> (\<forall>i<0. still_working (solver ?w (sent ?w + 1 + i)))
      \<and> (status_failed (solver ?w (sent ?w + 1 + 0))
           \<or> error_bearing (solver ?w (sent ?w + 1 + 0))
              \<and> \<not> status_ready (solver ?w (sent ?w + 1 + 0)))"
    by (simp add: test_world_fields scripted_2 answers)
  with broker_failure_signals [OF key, of ?u "PStr ''task-1''" 0]
  show "get_capsolver_token ?u ?w =
   Some (Inr PNone,
         \<lparr>environ = key_env, solver = scripted [task_answer, failed_answer], sent = 2,
          trace =
            [Post ''https://api.capsolver.com/createTask'' (create_task_payload ''secret'' ?u),
             Sleep 2,
             Post ''https://api.capsolver.com/getTaskResult''
               (get_task_result_payload ''secret'' (PStr ''task-1''))]\<rparr>)"
    by (simp add: test_world_def polled_submitted)
next
  let ?u = "''https://ahrefs.com/keyword-generator/?country=us&input=seo''"
  let ?w = "test_world key_env [task_answer, pending_answer, error_answer]"
  have key: "environ ?w ''CAPSOLVER_API_KEY'' = Some ''secret''" "''secret'' \<noteq> []"
    by (simp_all add: test_world_fields key_env_key)
  have "task_created (PStr ''task-1'') (solver ?w (sent ?w))
      \<and> (\<forall>i<1. still_working (solver ?w (sent ?w + 1 + i)))
      \<and> (status_failed (solver ?w (sent ?w + 1 + 1))
           \<or> error_bearing (solver ?w (sent ?w + 1 + 1))
              \<and> \<not> status_ready (solver ?w (sent ?w + 1 + 1)))"
    by (simp add: test_world_fields scripted_3 answers pending_still_working)
  with broker_failure_signals [OF key, of ?u "PStr ''task-1''" 1]
  show "get_capsolver_token ?u ?w =
   Some (Inr PNone,
         \<lparr>environ = key_env, solver = scripted [task_answer, pending_answer, error_answer],
          sent = 3,
          trace =
            [Post ''https://api.capsolver.com/createTask'' (create_task_payload ''secret'' ?u),
             Sleep 2,
             Post ''https://api.capsolver.com/getTaskResult''
               (get_task_result_payload ''secret'' (PStr ''task-1'')),
             Sleep 2,
             Post ''https://api.capsolver.com/getTaskResult''
               (get_task_result_payload ''secret'' (PStr ''task-1''))]\<rparr>)"
    by (simp add: test_world_def polled_submitted numeral_2_eq_2)
qed

theorem error_bearing_ready_answer_counterexample:
  "error_bearing ready_error_answer
   \<and> get_capsolver_token ''https://ahrefs.com/keyword-generator/?country=us&input=seo''
     (test_world key_env [task_answer, ready_error_answer]) =
   Some (Inr (PStr ''tok-1''),
         \<lparr>environ = key_env, solver = scripted [task_answer, ready_error_answer], sent = 2,
          trace =
            [Post ''https://api.capsolver.com/createTask''
               (create_task_payload ''secret''
                  ''https://ahrefs.com/keyword-generator/?country=us&input=seo''),
             Sleep 2,
             Post ''https://api.capsolver.com/getTaskResult''
               (get_task_result_payload ''secret'' (PStr ''task-1''))]\<rparr>)"
proof
  show "error_bearing ready_error_answer" by (rule answers)
next
  let ?u = "''https://ahrefs.com/keyword-generator/?country=us&input=seo''"
  let ?w = "test_world key_env [task_answer, ready_error_answer]"
  have key: "environ ?w ''CAPSOLVER_API_KEY'' = Some ''secret''" "''secret'' \<noteq> []"
    by (simp_all add: test_world_fields key_env_key)
  have first: "task_created (PStr ''task-1'') (solver ?w (sent ?w))"
    by (simp add: test_world_fields scripted_2 answers)
  have polls: "\<forall>i<0. still_working (solver ?w (sent ?w + 1 + i))"
    by simp
  have last: "poll_answer (solver ?w (sent ?w + 1 + 0)) = Inr (Some (PStr ''tok-1''))"
    by (simp add: test_world_fields scripted_2 answers poll_answer_ready)
  from broker_returns [OF key first polls last, of ?u]
  show "get_capsolver_token ?u ?w =
   Some (Inr (PStr ''tok-1''),
         \<lparr>environ = key_env, solver = scripted [task_answer, ready_error_answer], sent = 2,
          trace =
            [Post ''https://api.capsolver.com/createTask'' (create_task_payload ''secret'' ?u),
             Sleep 2,
             Post ''https://api.capsolver.com/getTaskResult''
               (get_task_result_payload ''secret'' (PStr ''task-1''))]\<rparr>)"
    by (simp add: test_world_def polled_submitted)
qed


section \<open>The broker and the world\<close>

lemma upstream_calls_append [simp]:
  "upstream_calls (xs @ ys) = upstream_calls xs @ upstream_calls ys"
  by (simp add: upstream_calls_def)

lemma upstream_calls_polls [simp]:
  "upstream_calls (concat (replicate m [Sleep n, Post url p])) = []"
  by (induction m) (simp_all add: upstream_calls_def)

lemma polled_frame:
  "upstream_calls (trace (polled k t m w)) = upstream_calls (trace w)"
  "\<exists>evs. trace (polled k t m w) = trace w @ evs"
  by (simp_all add: polled_def)

lemma submitted_frame:
  "upstream_calls (trace (submitted k u w)) = upstream_calls (trace w)"
  by (simp add: submitted_def upstream_calls_def)

lemma try_block_frame:
  assumes "try_block k u w = Some (r, w')"
  shows "environ w' = environ w" and "solver w' = solver w"
    and "upstream_calls (trace w') = upstream_calls (trace w)"
    and "\<exists>evs. trace w' = trace w
           @ Post ''https://api.capsolver.com/createTask'' (create_task_payload k u) # evs"
    and "sent w < sent w'"
proof -
  from try_block_Some [OF assms] obtain task_id m where
    w': "w' = polled k task_id m (submitted k u w)"
    by (metis polled_0)
  show "environ w' = environ w" "solver w' = solver w" "sent w < sent w'"
    by (simp_all add: w' polled_fields submitted_fields)
  show "upstream_calls (trace w') = upstream_calls (trace w)"
    by (simp add: w' polled_frame submitted_frame)
  show "\<exists>evs. trace w' = trace w
           @ Post ''https://api.capsolver.com/createTask'' (create_task_payload k u) # evs"
    by (simp add: w' polled_submitted)
qed

lemma except_request_frame:
  assumes "except_request (r0, w0) = (r, w')"
  shows "environ w' = environ w0" and "solver w' = solver w0" and "sent w' = sent w0"
    and "upstream_calls (trace w') = upstream_calls (trace w0)"
    and "\<exists>evs. trace w' = trace w0 @ evs"
  using assms
  by (cases "(r0, w0)" rule: except_request.cases; auto simp: py_print_def upstream_calls_def)+

lemma broker_frame:
  assumes "get_capsolver_token u w = Some (r, w')"
  shows "environ w' = environ w" and "solver w' = solver w"
    and "upstream_calls (trace w') = upstream_calls (trace w)"
proof -
  have "environ w' = environ w \<and> solver w' = solver w
      \<and> upstream_calls (trace w') = upstream_calls (trace w)"
  proof (cases "environ w ''CAPSOLVER_API_KEY''")
    case None
    with assms show ?thesis
      by (auto simp: get_capsolver_token_def py_print_def upstream_calls_def)
  next
    case (Some k)
    show ?thesis
    proof (cases "k = []")
      case True
      with Some assms show ?thesis
        by (auto simp: get_capsolver_token_def py_print_def upstream_calls_def)
    next
      case False
      from broker_Some [OF Some False assms] obtain r0 w0 where
        tb: "try_block k u w = Some (r0, w0)" and ex: "except_request (r0, w0) = (r, w')"
        by metis
      from try_block_frame(1-3) [OF tb] except_request_frame(1,2,4) [OF ex]
      show ?thesis by simp
    qed
  qed
  then show "environ w' = environ w" "solver w' = solver w"
    "upstream_calls (trace w') = upstream_calls (trace w)"
    by simp_all
qed

lemma broker_first_post:
  assumes "environ w ''CAPSOLVER_API_KEY'' = Some k" and "k \<noteq> []"
    and "get_capsolver_token u w = Some (r, w')"
  shows "\<exists>evs. trace w' = trace w
           @ Post ''https://api.capsolver.com/createTask'' (create_task_payload k u) # evs"
proof -
  from broker_Some [OF assms] obtain r0 w0 where
    tb: "try_block k u w = Some (r0, w0)" and ex: "except_request (r0, w0) = (r, w')"
    by metis
  from try_block_frame(4) [OF tb] except_request_frame(5) [OF ex]
  show ?thesis by auto
qed


section \<open>The tools and the broker\<close>

lemma get_token_for_url_eq:
  "get_token_for_url u w =
     (case get_capsolver_token u w of
        None \<Rightarrow> None
      | Some (Inl e, w1) \<Rightarrow> Some (Inl e, w1)
      | Some (Inr token, w1) \<Rightarrow>
          if truthy token then Some (Inr token, w1)
          else Some (Inl (Exception (''Failed to get verification token for URL: '' @ u)), w1))"
  by (simp add: get_token_for_url_def split: option.splits sum.splits prod.splits)

lemma token_for_url_token:
  "get_capsolver_token u w = Some (Inr token, w1) \<Longrightarrow> truthy token \<Longrightarrow>
   get_token_for_url u w = Some (Inr token, w1)"
  by (simp add: get_token_for_url_eq)

lemma token_for_url_no_token:
  "get_capsolver_token u w = Some (Inr token, w1) \<Longrightarrow> \<not> truthy token \<Longrightarrow>
   get_token_for_url u w =
     Some (Inl (Exception (''Failed to get verification token for URL: '' @ u)), w1)"
  by (simp add: get_token_for_url_eq)

lemma token_for_url_raises:
  "get_capsolver_token u w = Some (Inl e, w1) \<Longrightarrow> get_token_for_url u w = Some (Inl e, w1)"
  by (simp add: get_token_for_url_eq)

lemma token_for_url_None:
  "get_capsolver_token u w = None \<Longrightarrow> get_token_for_url u w = None"
  by (simp add: get_token_for_url_eq)

lemma token_gateI:
  assumes "get_capsolver_token u w = None \<Longrightarrow> res = None"
    and "\<And>e w1. get_capsolver_token u w = Some (Inl e, w1) \<Longrightarrow> res = Some (Inl e, w1)"
    and "\<And>token w1. get_capsolver_token u w = Some (Inr token, w1) \<Longrightarrow> \<not> truthy token \<Longrightarrow>
           res = Some (Inl (Exception (''Failed to get verification token for URL: '' @ u)), w1)"
    and "\<And>token w1. get_capsolver_token u w = Some (Inr token, w1) \<Longrightarrow> truthy token \<Longrightarrow>
           \<exists>r' f args evs. res = Some (r', w1\<lparr>trace := trace w1 @ Upstream f (token # args) # evs\<rparr>)
              \<and> list_all is_upstream evs"
  shows "token_gate u w res"
proof (cases "get_capsolver_token u w")
  case None
  with assms(1) show ?thesis by (simp add: token_gate_def)
next
  case (Some p)
  obtain r w1 where p: "p = (r, w1)" by (cases p)
  have frame: "upstream_calls (trace w1) = upstream_calls (trace w)"
    using Some p by (intro broker_frame(3)) simp
  show ?thesis
  proof (cases r)
    case (Inl e)
    with Some p assms(2) frame show ?thesis by (simp add: token_gate_def)
  next
    case (Inr token)
    show ?thesis
    proof (cases "truthy token")
      case False
      with Some p Inr assms(3) frame show ?thesis by (simp add: token_gate_def)
    next
      case True
      from assms(4) [OF _ True] Some p Inr obtain r' f args evs where
        "res = Some (r', w1\<lparr>trace := trace w1 @ Upstream f (token # args) # evs\<rparr>)"
        "list_all is_upstream evs"
        by auto
      with Some p Inr True frame show ?thesis
        by (auto simp: token_gate_def)
    qed
  qed
qed

lemma single_query_gate:
  "token_gate u w
     (case get_token_for_url u w of
        None \<Rightarrow> None
      | Some (Inl e, w1) \<Rightarrow> Some (Inl e, w1)
      | Some (Inr token, w1) \<Rightarrow> Some (q token, call_upstream f (token # args) w1))"
proof (rule token_gateI)
  fix token w1
  assume a: "get_capsolver_token u w = Some (Inr token, w1)" "truthy token"
  have "call_upstream f (token # args) w1 = w1\<lparr>trace := trace w1 @ Upstream f (token # args) # []\<rparr>"
    by (simp add: call_upstream_def)
  then show "\<exists>r' f' args' evs.
      (case get_token_for_url u w of
         None \<Rightarrow> None
       | Some (Inl e, w1) \<Rightarrow> Some (Inl e, w1)
       | Some (Inr token, w1) \<Rightarrow> Some (q token, call_upstream f (token # args) w1)) =
      Some (r', w1\<lparr>trace := trace w1 @ Upstream f' (token # args') # evs\<rparr>)
      \<and> list_all is_upstream evs"
    by (simp add: token_for_url_token [OF a])
       (intro exI [of _ f] exI [of _ args] exI [of _ "[]"], simp)
qed (simp_all add: token_for_url_None token_for_url_raises token_for_url_no_token)

lemma keyword_generator_gate:
  "token_gate (''https://ahrefs.com/keyword-generator/?country='' @ country
                 @ ''&input='' @ quote keyword) w
     (keyword_generator c keyword country search_engine w)"
  unfolding keyword_generator_def by (rule single_query_gate)

lemma get_traffic_gate:
  "token_gate (''https://ahrefs.com/traffic-checker/?input='' @ domain_or_url
                 @ ''&mode='' @ mode) w
     (get_traffic c domain_or_url country mode w)"
  unfolding get_traffic_def by (rule single_query_gate)

lemma keyword_difficulty_gate:
  "token_gate (''https://ahrefs.com/keyword-difficulty/?country='' @ country
                 @ ''&input='' @ quote keyword) w
     (keyword_difficulty c keyword country w)"
  unfolding keyword_difficulty_def by (rule single_query_gate)

text \<open>The run of the backlinks tool once the token is there.\<close>

lemma get_backlinks_list_eq:
  "get_token_for_url u w = Some (Inr token, w1) \<Longrightarrow>
   u = ''https://ahrefs.com/backlink-checker/?input='' @ domain @ ''&mode=subdomains'' \<Longrightarrow>
   get_backlinks_list c domain w =
     (case get_signature_and_overview c token domain of
        Inl e \<Rightarrow>
          Some (Inl e, w1\<lparr>trace := trace w1
                  @ [Upstream ''get_signature_and_overview'' [token, PStr domain]]\<rparr>)
      | Inr (signature, valid_until, overview_data) \<Rightarrow>
          if \<not> truthy signature \<or> \<not> truthy valid_until then
            Some (Inl (Exception (''Failed to get signature for domain: '' @ domain)),
                  w1\<lparr>trace := trace w1
                    @ [Upstream ''get_signature_and_overview'' [token, PStr domain]]\<rparr>)
          else
            (case get_backlinks c signature valid_until domain of
               Inl e \<Rightarrow>
                 Some (Inl e, w1\<lparr>trace := trace w1
                         @ [Upstream ''get_signature_and_overview'' [token, PStr domain],
                            Upstream ''get_backlinks'' [signature, valid_until, PStr domain]]\<rparr>)
             | Inr backlinks \<Rightarrow>
                 Some (Inr (PDict [(''overview'', overview_data), (''backlinks'', backlinks)]),
                       w1\<lparr>trace := trace w1
                         @ [Upstream ''get_signature_and_overview'' [token, PStr domain],
                            Upstream ''get_backlinks'' [signature, valid_until, PStr domain]]\<rparr>)))"
  by (simp add: get_backlinks_list_def call_upstream_def Let_def split: sum.splits prod.splits)

lemma get_backlinks_list_gate:
  "token_gate (''https://ahrefs.com/backlink-checker/?input='' @ domain @ ''&mode=subdomains'') w
     (get_backlinks_list c domain w)"
proof (rule token_gateI)
  let ?u = "''https://ahrefs.com/backlink-checker/?input='' @ domain @ ''&mode=subdomains''"
  fix token w1
  assume a: "get_capsolver_token ?u w = Some (Inr token, w1)" "truthy token"
  let ?e1 = "Upstream ''get_signature_and_overview'' [token, PStr domain]"
  have run: "get_backlinks_list c domain w =
      (case get_signature_and_overview c token domain of
        Inl e \<Rightarrow> Some (Inl e, w1\<lparr>trace := trace w1 @ [?e1]\<rparr>)
      | Inr (signature, valid_until, overview_data) \<Rightarrow>
          if \<not> truthy signature \<or> \<not> truthy valid_until then
            Some (Inl (Exception (''Failed to get signature for domain: '' @ domain)),
                  w1\<lparr>trace := trace w1 @ [?e1]\<rparr>)
          else
            (case get_backlinks c signature valid_until domain of
               Inl e \<Rightarrow>
                 Some (Inl e, w1\<lparr>trace := trace w1
                         @ [?e1, Upstream ''get_backlinks'' [signature, valid_until, PStr domain]]\<rparr>)
             | Inr backlinks \<Rightarrow>
                 Some (Inr (PDict [(''overview'', overview_data), (''backlinks'', backlinks)]),
                       w1\<lparr>trace := trace w1
                         @ [?e1, Upstream ''get_backlinks'' [signature, valid_until, PStr domain]]\<rparr>)))"
    by (rule get_backlinks_list_eq [OF token_for_url_token [OF a] refl])
  have one: "\<exists>f args evs. w1\<lparr>trace := trace w1 @ [?e1]\<rparr> =
        w1\<lparr>trace := trace w1 @ Upstream f (token # args) # evs\<rparr> \<and> list_all is_upstream evs"
    by (intro exI [of _ "''get_signature_and_overview''"] exI [of _ "[PStr domain]"]
         exI [of _ "[]"]) simp
  have two: "\<exists>f args evs. w1\<lparr>trace := trace w1 @ [?e1, Upstream g as]\<rparr> =
        w1\<lparr>trace := trace w1 @ Upstream f (token # args) # evs\<rparr> \<and> list_all is_upstream evs"
    for g as
    by (intro exI [of _ "''get_signature_and_overview''"] exI [of _ "[PStr domain]"]
         exI [of _ "[Upstream g as]"]) simp
  show "\<exists>r' f args evs. get_backlinks_list c domain w =
      Some (r', w1\<lparr>trace := trace w1 @ Upstream f (token # args) # evs\<rparr>)
      \<and> list_all is_upstream evs"
    unfolding run using one two
    by (auto split: sum.splits prod.splits)
qed (simp_all add: get_backlinks_list_def token_for_url_None token_for_url_raises
       token_for_url_no_token)


section \<open>Runs against the test doubles\<close>

lemma scripted_run:
  "get_capsolver_token u (test_world key_env [task_answer, pending_answer, ready_answer]) =
   Some (Inr (PStr ''tok-1''),
         \<lparr>environ = key_env, solver = scripted [task_answer, pending_answer, ready_answer],
          sent = 3,
          trace =
            [Post ''https://api.capsolver.com/createTask'' (create_task_payload ''secret'' u),
             Sleep 2,
             Post ''https://api.capsolver.com/getTaskResult''
               (get_task_result_payload ''secret'' (PStr ''task-1'')),
             Sleep 2,
             Post ''https://api.capsolver.com/getTaskResult''
               (get_task_result_payload ''secret'' (PStr ''task-1''))]\<rparr>)"
proof -
  let ?w = "test_world key_env [task_answer, pending_answer, ready_answer]"
  have key: "environ ?w ''CAPSOLVER_API_KEY'' = Some ''secret''" "''secret'' \<noteq> []"
    by (simp_all add: test_world_fields key_env_key)
  have first: "task_created (PStr ''task-1'') (solver ?w (sent ?w))"
    by (simp add: test_world_fields scripted_3 answers)
  have polls: "\<forall>i<1. still_working (solver ?w (sent ?w + 1 + i))"
    by (simp add: test_world_fields scripted_3 answers pending_still_working)
  have last: "poll_answer (solver ?w (sent ?w + 1 + 1)) = Inr (Some (PStr ''tok-1''))"
    by (simp add: test_world_fields scripted_3 answers poll_answer_ready)
  from broker_returns [OF key first polls last, of u] show ?thesis
    by (simp add: test_world_def polled_submitted numeral_2_eq_2)
qed

lemma no_key_run:
  "get_capsolver_token u (test_world empty_env rs) =
   Some (Inr PNone,
         \<lparr>environ = empty_env, solver = scripted rs, sent = 0,
          trace = [Print ''Error: CAPSOLVER_API_KEY environment variable not set.'']\<rparr>)"
  by (simp add: get_capsolver_token_def test_world_def empty_env_def py_print_def)

section \<open>The claims about the tools\<close>

text \<open>
  Claim C2. When \<^verbatim>\<open>CAPSOLVER_API_KEY\<close> is not in the environment, or is empty, the
  broker prints that the variable is not set and returns \<^verbatim>\<open>None\<close> at once, and each
  of the four tools fails with the exception that names the URL it wanted a token for.
  The world afterwards is the world before with that one line printed: no request was
  sent (\<open>sent\<close> and the solver's answers are untouched, no \<open>Post\<close> is recorded), and
  no query function was called. The failure that reaches the caller is the plain
  \<^verbatim>\<open>Exception\<close> of \<^verbatim>\<open>get_token_for_url\<close>; that the cause is the configuration is
  said by the printed line.
\<close>

theorem no_credential_no_request:
  assumes "environ w ''CAPSOLVER_API_KEY'' = None \<or> environ w ''CAPSOLVER_API_KEY'' = Some []"
  shows
    "get_capsolver_token site_url w =
       Some (Inr PNone,
             w\<lparr>trace := trace w
               @ [Print ''Error: CAPSOLVER_API_KEY environment variable not set.'']\<rparr>)
     \<and> get_backlinks_list c domain w =
       Some (Inl (Exception (''Failed to get verification token for URL: ''
                    @ ''https://ahrefs.com/backlink-checker/?input='' @ domain
                    @ ''&mode=subdomains'')),
             w\<lparr>trace := trace w
               @ [Print ''Error: CAPSOLVER_API_KEY environment variable not set.'']\<rparr>)
     \<and> keyword_generator c keyword country search_engine w =
       Some (Inl (Exception (''Failed to get verification token for URL: ''
                    @ ''https://ahrefs.com/keyword-generator/?country='' @ country
                    @ ''&input='' @ quote keyword)),
             w\<lparr>trace := trace w
               @ [Print ''Error: CAPSOLVER_API_KEY environment variable not set.'']\<rparr>)
     \<and> get_traffic c domain_or_url country mode w =
       Some (Inl (Exception (''Failed to get verification token for URL: ''
                    @ ''https://ahrefs.com/traffic-checker/?input='' @ domain_or_url
                    @ ''&mode='' @ mode)),
             w\<lparr>trace := trace w
               @ [Print ''Error: CAPSOLVER_API_KEY environment variable not set.'']\<rparr>)
     \<and> keyword_difficulty c keyword country w =
       Some (Inl (Exception (''Failed to get verification token for URL: ''
                    @ ''https://ahrefs.com/keyword-difficulty/?country='' @ country
                    @ ''&input='' @ quote keyword)),
             w\<lparr>trace := trace w
               @ [Print ''Error: CAPSOLVER_API_KEY environment variable not set.'']\<rparr>)"
proof -
  let ?w' = "w\<lparr>trace := trace w
      @ [Print ''Error: CAPSOLVER_API_KEY environment variable not set.'']\<rparr>"
  have broker: "get_capsolver_token u w = Some (Inr PNone, ?w')" for u
    using broker_without_key [OF assms] by (simp add: py_print_def)
  have tok: "get_token_for_url u w =
      Some (Inl (Exception (''Failed to get verification token for URL: '' @ u)), ?w')" for u
    by (rule token_for_url_no_token [OF broker]) simp
  show ?thesis
    unfolding get_backlinks_list_def keyword_generator_def get_traffic_def
      keyword_difficulty_def tok
    by (simp add: broker)
qed

theorem no_credential_no_request_witness:
  "get_capsolver_token ''https://ahrefs.com/keyword-difficulty/?country=us&input=seo''
     (test_world empty_env [task_answer, pending_answer, ready_answer]) =
   Some (Inr PNone,
         \<lparr>environ = empty_env, solver = scripted [task_answer, pending_answer, ready_answer],
          sent = 0,
          trace = [Print ''Error: CAPSOLVER_API_KEY environment variable not set.'']\<rparr>)
   \<and> keyword_difficulty fixed_collaborators ''seo'' ''us''
     (test_world empty_env [task_answer, pending_answer, ready_answer]) =
   Some (Inl (Exception ''Failed to get verification token for URL: https://ahrefs.com/keyword-difficulty/?country=us&input=seo''),
         \<lparr>environ = empty_env, solver = scripted [task_answer, pending_answer, ready_answer],
          sent = 0,
          trace = [Print ''Error: CAPSOLVER_API_KEY environment variable not set.'']\<rparr>)"
proof -
  let ?w = "test_world empty_env [task_answer, pending_answer, ready_answer]"
  have "environ ?w ''CAPSOLVER_API_KEY'' = None \<or> environ ?w ''CAPSOLVER_API_KEY'' = Some []"
    by (simp add: test_world_fields empty_env_def)
  from no_credential_no_request [OF this,
      of "''https://ahrefs.com/keyword-difficulty/?country=us&input=seo''"
         fixed_collaborators "''example.com''" "''seo''" "''us''" "''Google''"
         "''example.com''" "''subdomains''"]
  have "get_capsolver_token ''https://ahrefs.com/keyword-difficulty/?country=us&input=seo'' ?w =
       Some (Inr PNone,
             ?w\<lparr>trace := trace ?w
               @ [Print ''Error: CAPSOLVER_API_KEY environment variable not set.'']\<rparr>)"
    and "keyword_difficulty fixed_collaborators ''seo'' ''us'' ?w =
       Some (Inl (Exception (''Failed to get verification token for URL: ''
                    @ ''https://ahrefs.com/keyword-difficulty/?country='' @ ''us''
                    @ ''&input='' @ quote ''seo'')),
             ?w\<lparr>trace := trace ?w
               @ [Print ''Error: CAPSOLVER_API_KEY environment variable not set.'']\<rparr>)"
    by blast+
  then show ?thesis
    by (simp add: test_world_def quote_def quote_byte_def always_safe_def)
qed


text \<open>
  Claim C1. Each of the four tools keeps to the order token first, query after
  (\<open>token_gate\<close>), for the target URL it builds: when the broker returns no token the
  tool fails with \<^verbatim>\<open>Failed to get verification token for URL:\<close> followed by that URL,
  in the world the broker left, so that no query function has been called; a query
  function is called only after the broker has returned a token, and the first one called
  is given it.
\<close>

theorem token_before_query:
  "token_gate (''https://ahrefs.com/backlink-checker/?input='' @ domain @ ''&mode=subdomains'') w
     (get_backlinks_list c domain w)
   \<and> token_gate (''https://ahrefs.com/keyword-generator/?country='' @ country
                   @ ''&input='' @ quote keyword) w
     (keyword_generator c keyword country search_engine w)
   \<and> token_gate (''https://ahrefs.com/traffic-checker/?input='' @ domain_or_url
                   @ ''&mode='' @ mode) w
     (get_traffic c domain_or_url country mode w)
   \<and> token_gate (''https://ahrefs.com/keyword-difficulty/?country='' @ country
                   @ ''&input='' @ quote keyword) w
     (keyword_difficulty c keyword country w)"
  by (intro conjI get_backlinks_list_gate keyword_generator_gate get_traffic_gate
      keyword_difficulty_gate)

lemma failed_run:
  "get_capsolver_token u (test_world key_env [task_answer, failed_answer]) =
   Some (Inr PNone,
         \<lparr>environ = key_env, solver = scripted [task_answer, failed_answer], sent = 2,
          trace =
            [Post ''https://api.capsolver.com/createTask'' (create_task_payload ''secret'' u),
             Sleep 2,
             Post ''https://api.capsolver.com/getTaskResult''
               (get_task_result_payload ''secret'' (PStr ''task-1''))]\<rparr>)"
proof -
  let ?w = "test_world key_env [task_answer, failed_answer]"
  have key: "environ ?w ''CAPSOLVER_API_KEY'' = Some ''secret''" "''secret'' \<noteq> []"
    by (simp_all add: test_world_fields key_env_key)
  have first: "task_created (PStr ''task-1'') (solver ?w (sent ?w))"
    by (simp add: test_world_fields scripted_2 answers)
  have polls: "\<forall>i<0. still_working (solver ?w (sent ?w + 1 + i))"
    by simp
  have last: "poll_answer (solver ?w (sent ?w + 1 + 0)) = Inr (Some PNone)"
    by (simp add: test_world_fields scripted_2 answers poll_answer_failed)
  from broker_returns [OF key first polls last, of u] show ?thesis
    by (simp add: test_world_def polled_submitted)
qed

theorem token_before_query_witness:
  "get_traffic fixed_collaborators ''example.com'' ''None'' ''exact''
     (test_world key_env [task_answer, failed_answer]) =
   Some (Inl (Exception ''Failed to get verification token for URL: https://ahrefs.com/traffic-checker/?input=example.com&mode=exact''),
         \<lparr>environ = key_env, solver = scripted [task_answer, failed_answer], sent = 2,
          trace =
            [Post ''https://api.capsolver.com/createTask''
               (create_task_payload ''secret''
                  ''https://ahrefs.com/traffic-checker/?input=example.com&mode=exact''),
             Sleep 2,
             Post ''https://api.capsolver.com/getTaskResult''
               (get_task_result_payload ''secret'' (PStr ''task-1''))]\<rparr>)"
proof -
  let ?w = "test_world key_env [task_answer, failed_answer]"
  from token_before_query [where w = ?w and c = fixed_collaborators
      and domain_or_url = "''example.com''" and mode = "''exact''" and country = "''None''"]
  have "token_gate (''https://ahrefs.com/traffic-checker/?input='' @ ''example.com''
                   @ ''&mode='' @ ''exact'') ?w
     (get_traffic fixed_collaborators ''example.com'' ''None'' ''exact'' ?w)"
    by blast
  then show ?thesis
    unfolding token_gate_def failed_run by simp
qed

text \<open>
  Claim C7. When the broker returns a token, \<^verbatim>\<open>get_signature_and_overview\<close> returns a
  signature, a validity and an overview, the first two of them true values, and
  \<^verbatim>\<open>get_backlinks\<close> returns a list of backlinks, \<^verbatim>\<open>get_backlinks_list\<close> returns the
  dictionary of exactly that overview and that list, after calling the two query
  functions once each.
\<close>

theorem backlinks_echoed:
  assumes "get_capsolver_token
             (''https://ahrefs.com/backlink-checker/?input='' @ domain @ ''&mode=subdomains'') w =
           Some (Inr token, w1)"
    and "truthy token"
    and "get_signature_and_overview c token domain = Inr (signature, valid_until, overview)"
    and "truthy signature" and "truthy valid_until"
    and "get_backlinks c signature valid_until domain = Inr backlinks"
  shows "get_backlinks_list c domain w =
     Some (Inr (PDict [(''overview'', overview), (''backlinks'', backlinks)]),
           w1\<lparr>trace := trace w1
             @ [Upstream ''get_signature_and_overview'' [token, PStr domain],
                Upstream ''get_backlinks'' [signature, valid_until, PStr domain]]\<rparr>)"
  using assms(3-6)
  by (simp add: get_backlinks_list_eq [OF token_for_url_token [OF assms(1,2)] refl])

theorem backlinks_echoed_witness:
  "get_backlinks_list fixed_collaborators ''example.com''
     (test_world key_env [task_answer, pending_answer, ready_answer]) =
   Some (Inr (PDict [(''overview'', PDict [(''domainRating'', PInt 50)]),
                     (''backlinks'', PList [PStr ''https://a.example/'', PStr ''https://b.example/''])]),
         \<lparr>environ = key_env, solver = scripted [task_answer, pending_answer, ready_answer],
          sent = 3,
          trace =
            [Post ''https://api.capsolver.com/createTask''
               (create_task_payload ''secret''
                  ''https://ahrefs.com/backlink-checker/?input=example.com&mode=subdomains''),
             Sleep 2,
             Post ''https://api.capsolver.com/getTaskResult''
               (get_task_result_payload ''secret'' (PStr ''task-1'')),
             Sleep 2,
             Post ''https://api.capsolver.com/getTaskResult''
               (get_task_result_payload ''secret'' (PStr ''task-1'')),
             Upstream ''get_signature_and_overview'' [PStr ''tok-1'', PStr ''example.com''],
             Upstream ''get_backlinks'' [PStr ''sig'', PStr ''2030-01-01'', PStr ''example.com'']]\<rparr>)"
proof -
  have sig: "get_signature_and_overview fixed_collaborators (PStr ''tok-1'') ''example.com'' =
      Inr (PStr ''sig'', PStr ''2030-01-01'', PDict [(''domainRating'', PInt 50)])"
    by (simp add: fixed_collaborators_def)
  have bl: "get_backlinks fixed_collaborators (PStr ''sig'') (PStr ''2030-01-01'') ''example.com'' =
      Inr (PList [PStr ''https://a.example/'', PStr ''https://b.example/''])"
    by (simp add: fixed_collaborators_def)
  from backlinks_echoed [OF scripted_run _ sig _ _ bl] show ?thesis
    by simp
qed

text \<open>
  Claim C8. When the broker returns a token and \<^verbatim>\<open>get_signature_and_overview\<close> returns
  no signature, \<^verbatim>\<open>get_backlinks_list\<close> fails with the exception
  \<^verbatim>\<open>Failed to get signature for domain:\<close> followed by the domain; \<^verbatim>\<open>get_backlinks\<close> is
  not called and nothing is returned.
\<close>

theorem no_signature_fails:
  assumes "get_capsolver_token
             (''https://ahrefs.com/backlink-checker/?input='' @ domain @ ''&mode=subdomains'') w =
           Some (Inr token, w1)"
    and "truthy token"
    and "get_signature_and_overview c token domain = Inr (signature, valid_until, overview)"
    and "\<not> truthy signature"
  shows "get_backlinks_list c domain w =
     Some (Inl (Exception (''Failed to get signature for domain: '' @ domain)),
           w1\<lparr>trace := trace w1
             @ [Upstream ''get_signature_and_overview'' [token, PStr domain]]\<rparr>)"
  using assms(3,4)
  by (simp add: get_backlinks_list_eq [OF token_for_url_token [OF assms(1,2)] refl])

theorem no_signature_fails_witness:
  "get_backlinks_list unsigned_collaborators ''example.com''
     (test_world key_env [task_answer, pending_answer, ready_answer]) =
   Some (Inl (Exception ''Failed to get signature for domain: example.com''),
         \<lparr>environ = key_env, solver = scripted [task_answer, pending_answer, ready_answer],
          sent = 3,
          trace =
            [Post ''https://api.capsolver.com/createTask''
               (create_task_payload ''secret''
                  ''https://ahrefs.com/backlink-checker/?input=example.com&mode=subdomains''),
             Sleep 2,
             Post ''https://api.capsolver.com/getTaskResult''
               (get_task_result_payload ''secret'' (PStr ''task-1'')),
             Sleep 2,
             Post ''https://api.capsolver.com/getTaskResult''
               (get_task_result_payload ''secret'' (PStr ''task-1'')),
             Upstream ''get_signature_and_overview'' [PStr ''tok-1'', PStr ''example.com'']]\<rparr>)"
proof -
  have sig: "get_signature_and_overview unsigned_collaborators (PStr ''tok-1'') ''example.com'' =
      Inr (PNone, PNone, PNone)"
    by (simp add: unsigned_collaborators_def fixed_collaborators_def)
  from no_signature_fails [OF scripted_run _ sig] show ?thesis
    by simp
qed


section \<open>The same answers, the same result\<close>

lemma poll_loop_same:
  assumes "poll_loop k t w = Some (r, w')"
    and "\<forall>i. solver w2 (sent w2 + i) = solver w (sent w + i)"
  shows "\<exists>w3. poll_loop k t w2 = Some (r, w3)"
proof -
  from poll_loop_Some [OF assms(1)] obtain n where
    go: "\<forall>i<n. poll_answer (solver w (sent w + i)) = Inr None"
    and last: "poll_answer (solver w (sent w + n)) =
        (case r of Inl e \<Rightarrow> Inl e | Inr v \<Rightarrow> Inr (Some v))"
    by blast
  from go assms(2) have go2: "\<forall>i<n. poll_answer (solver w2 (sent w2 + i)) = Inr None"
    by simp
  show ?thesis
  proof (cases r)
    case (Inl e)
    with last assms(2) have "poll_answer (solver w2 (sent w2 + n)) = Inl e" by simp
    from poll_loop_raises [OF go2 this] Inl show ?thesis by blast
  next
    case (Inr v)
    with last assms(2) have "poll_answer (solver w2 (sent w2 + n)) = Inr (Some v)" by simp
    from poll_loop_returns [OF go2 this] Inr show ?thesis by blast
  qed
qed

lemma try_block_same:
  assumes "try_block k u w = Some (r, w')"
    and "\<forall>i. solver w2 (sent w2 + i) = solver w (sent w + i)"
  shows "\<exists>w3. try_block k u w2 = Some (r, w3)"
proof -
  from assms(2) have first: "solver w2 (sent w2) = solver w (sent w)"
    by (metis add.right_neutral)
  have later: "\<forall>i. solver (submitted k u w2) (sent (submitted k u w2) + i) =
      solver (submitted k u w) (sent (submitted k u w) + i)"
    using assms(2) by (simp add: submitted_fields) (metis add_Suc_right)
  show ?thesis
  proof (cases "decode_answer (solver w (sent w))")
    case dw: (Inl e)
    from assms(1) have "r = Inl e" by (simp add: try_block_eq dw)
    then show ?thesis by (simp add: try_block_eq first dw)
  next
    case dw: (Inr resp)
    show ?thesis
    proof (cases "py_get resp ''taskId'' PNone")
      case tid: (Inl e)
      from assms(1) have "r = Inl e" by (simp add: try_block_eq dw tid)
      then show ?thesis by (simp add: try_block_eq first dw tid)
    next
      case tid: (Inr task_id)
      show ?thesis
      proof (cases "truthy task_id")
        case False
        with assms(1) have "r = Inr PNone" by (simp add: try_block_eq dw tid)
        with False show ?thesis by (simp add: try_block_eq first dw tid)
      next
        case True
        with assms(1) have "poll_loop k task_id (submitted k u w) = Some (r, w')"
          by (simp add: try_block_eq dw tid)
        from poll_loop_same [OF this later] True show ?thesis
          by (simp add: try_block_eq first dw tid)
      qed
    qed
  qed
qed

lemma except_request_result:
  "fst (except_request (r0, w0)) = fst (except_request (r0, w0'))"
  by (cases "(r0, w0)" rule: except_request.cases) auto

lemma broker_same:
  assumes "get_capsolver_token u w = Some (r, w')"
    and "environ w2 = environ w"
    and "\<forall>i. solver w2 (sent w2 + i) = solver w (sent w + i)"
  shows "\<exists>w3. get_capsolver_token u w2 = Some (r, w3)"
proof (cases "environ w ''CAPSOLVER_API_KEY''")
  case None
  with assms(1,2) show ?thesis by (auto simp: get_capsolver_token_def)
next
  case (Some k)
  show ?thesis
  proof (cases "k = []")
    case True
    with Some assms(1,2) show ?thesis by (auto simp: get_capsolver_token_def)
  next
    case False
    from broker_Some [OF Some False assms(1)] obtain r0 w0 where
      tb: "try_block k u w = Some (r0, w0)" and ex: "(r, w') = except_request (r0, w0)"
      by blast
    from try_block_same [OF tb assms(3)] obtain w0' where
      tb2: "try_block k u w2 = Some (r0, w0')" by blast
    from ex have "fst (except_request (r0, w0')) = r"
      by (metis except_request_result fst_conv)
    with tb2 Some False assms(2) show ?thesis
      by (simp add: get_capsolver_token_def) (metis prod.collapse)
  qed
qed

lemma token_for_url_same:
  assumes "get_token_for_url u w = Some (r, w')"
    and "environ w2 = environ w"
    and "\<forall>i. solver w2 (sent w2 + i) = solver w (sent w + i)"
  shows "\<exists>w3. get_token_for_url u w2 = Some (r, w3)"
proof -
  from assms(1) obtain r1 where b: "get_capsolver_token u w = Some (r1, w')"
    by (auto simp: get_token_for_url_eq split: option.splits sum.splits prod.splits if_splits)
  from broker_same [OF b assms(2,3)] obtain w3 where
    b2: "get_capsolver_token u w2 = Some (r1, w3)" by blast
  from assms(1) b b2 show ?thesis
    by (auto simp: get_token_for_url_eq split: sum.splits if_splits)
qed

lemma tool_frame:
  assumes "token_gate u w res" and "res = Some (r, w')"
  shows "environ w' = environ w" and "solver w' = solver w"
proof -
  from assms obtain r1 w1 where b: "get_capsolver_token u w = Some (r1, w1)"
    by (cases "get_capsolver_token u w") (auto simp: token_gate_def)
  from assms b have "environ w' = environ w1 \<and> solver w' = solver w1"
    by (auto simp: token_gate_def split: sum.splits if_splits)
  with broker_frame(1,2) [OF b] show "environ w' = environ w" "solver w' = solver w"
    by simp_all
qed

text \<open>
  Claim C9. Let a call of \<^verbatim>\<open>keyword_difficulty\<close> return \<open>r\<close> and leave the world
  \<open>w1\<close>, in which requests have been sent, time has passed and events are on record.
  If the solver double answers the requests that follow as it answered those of the
  first call, a second call with the same arguments, made in \<open>w1\<close>, returns, and returns
  \<open>r\<close>: nothing that the first call left behind reaches the result. The query function
  is the same function of its arguments in both calls.
\<close>

theorem keyword_difficulty_repeatable:
  assumes "keyword_difficulty c keyword country w = Some (r, w1)"
    and "\<forall>i. solver w1 (sent w1 + i) = solver w (sent w + i)"
  shows "map_option fst (keyword_difficulty c keyword country w1) = Some r"
proof -
  let ?u = "''https://ahrefs.com/keyword-difficulty/?country='' @ country
      @ ''&input='' @ quote keyword"
  have env: "environ w1 = environ w"
    by (rule tool_frame(1) [OF keyword_difficulty_gate assms(1)])
  from assms(1) obtain r0 w0 where t: "get_token_for_url ?u w = Some (r0, w0)"
    unfolding keyword_difficulty_def by (cases "get_token_for_url ?u w") auto
  from token_for_url_same [OF t env assms(2)] obtain w3 where
    t2: "get_token_for_url ?u w1 = Some (r0, w3)" by blast
  from assms(1) show ?thesis
    unfolding keyword_difficulty_def t t2
    by (cases r0) auto
qed


lemma scripted_keyword_difficulty:
  "keyword_difficulty fixed_collaborators keyword country
     (test_world key_env [task_answer, pending_answer, ready_answer]) =
   Some (Inr (PDict [(''difficulty'', PInt 37)]),
         \<lparr>environ = key_env, solver = scripted [task_answer, pending_answer, ready_answer],
          sent = 3,
          trace =
            [Post ''https://api.capsolver.com/createTask''
               (create_task_payload ''secret''
                  (''https://ahrefs.com/keyword-difficulty/?country='' @ country
                     @ ''&input='' @ quote keyword)),
             Sleep 2,
             Post ''https://api.capsolver.com/getTaskResult''
               (get_task_result_payload ''secret'' (PStr ''task-1'')),
             Sleep 2,
             Post ''https://api.capsolver.com/getTaskResult''
               (get_task_result_payload ''secret'' (PStr ''task-1'')),
             Upstream ''get_keyword_difficulty''
               [PStr ''tok-1'', PStr keyword, PStr country]]\<rparr>)"
  unfolding keyword_difficulty_def
  by (simp add: token_for_url_token [OF scripted_run] fixed_collaborators_def call_upstream_def)

lemma quote_seo: "quote ''seo'' = ''seo''"
  by (simp add: quote_def quote_byte_def always_safe_def)

theorem keyword_difficulty_repeatable_witness:
  "map_option fst
     (keyword_difficulty fixed_collaborators ''seo'' ''us''
        \<lparr>environ = key_env, solver = scripted [task_answer, pending_answer, ready_answer],
         sent = 3,
         trace =
           [Post ''https://api.capsolver.com/createTask''
              (create_task_payload ''secret''
                 ''https://ahrefs.com/keyword-difficulty/?country=us&input=seo''),
            Sleep 2,
            Post ''https://api.capsolver.com/getTaskResult''
              (get_task_result_payload ''secret'' (PStr ''task-1'')),
            Sleep 2,
            Post ''https://api.capsolver.com/getTaskResult''
              (get_task_result_payload ''secret'' (PStr ''task-1'')),
            Upstream ''get_keyword_difficulty'' [PStr ''tok-1'', PStr ''seo'', PStr ''us'']]\<rparr>) =
   Some (Inr (PDict [(''difficulty'', PInt 37)]))"
proof -
  let ?w = "test_world key_env [task_answer, pending_answer, ready_answer]"
  let ?w1 = "\<lparr>environ = key_env, solver = scripted [task_answer, pending_answer, ready_answer],
         sent = 3,
         trace =
           [Post ''https://api.capsolver.com/createTask''
              (create_task_payload ''secret''
                 ''https://ahrefs.com/keyword-difficulty/?country=us&input=seo''),
            Sleep 2,
            Post ''https://api.capsolver.com/getTaskResult''
              (get_task_result_payload ''secret'' (PStr ''task-1'')),
            Sleep 2,
            Post ''https://api.capsolver.com/getTaskResult''
              (get_task_result_payload ''secret'' (PStr ''task-1'')),
            Upstream ''get_keyword_difficulty'' [PStr ''tok-1'', PStr ''seo'', PStr ''us'']]\<rparr>"
  have first: "keyword_difficulty fixed_collaborators ''seo'' ''us'' ?w =
      Some (Inr (PDict [(''difficulty'', PInt 37)]), ?w1)"
    using scripted_keyword_difficulty [of "''seo''" "''us''"] by (simp add: quote_seo)
  have replay: "\<forall>i. solver ?w1 (sent ?w1 + i) = solver ?w (sent ?w + i)"
    by (simp add: test_world_fields scripted_def)
  from keyword_difficulty_repeatable [OF first replay] show ?thesis .
qed


section \<open>The URL a tool hands to the broker\<close>

lemma gate_first_post:
  assumes "token_gate u w res" and "res = Some (r, w')"
    and "environ w ''CAPSOLVER_API_KEY'' = Some k" and "k \<noteq> []"
  shows "\<exists>evs. trace w' = trace w
           @ Post ''https://api.capsolver.com/createTask'' (create_task_payload k u) # evs"
proof -
  from assms(1,2) obtain r1 w1 where b: "get_capsolver_token u w = Some (r1, w1)"
    by (cases "get_capsolver_token u w") (auto simp: token_gate_def)
  from broker_first_post [OF assms(3,4) b] obtain evs where
    evs: "trace w1 = trace w
           @ Post ''https://api.capsolver.com/createTask'' (create_task_payload k u) # evs"
    by blast
  from assms(1,2) b have "\<exists>evs'. trace w' = trace w1 @ evs'"
    by (auto simp: token_gate_def split: sum.splits if_splits)
  with evs show ?thesis by auto
qed

section \<open>Percent-encoding\<close>

lemma hex_digit_safe: "always_safe (hex_digit n)"
proof -
  have "hex_digit n \<in> set ''0123456789ABCDEF''"
    unfolding hex_digit_def by (rule nth_mem) simp
  then show ?thesis by (auto simp: always_safe_def)
qed

lemma quote_byte_alphabet:
  "ch \<in> set (quote_byte ''/'' c) \<Longrightarrow> always_safe ch \<or> ch = CHR ''/'' \<or> ch = CHR ''%''"
  by (auto simp: quote_byte_def hex_digit_safe split: if_splits)

lemma quote_alphabet:
  "ch \<in> set (quote s) \<Longrightarrow> always_safe ch \<or> ch = CHR ''/'' \<or> ch = CHR ''%''"
  by (auto simp: quote_def dest: quote_byte_alphabet)

lemma quote_no_space_no_ampersand:
  "CHR '' '' \<notin> set (quote s)" "CHR ''&'' \<notin> set (quote s)"
  by (auto dest: quote_alphabet simp: always_safe_def)

lemma quote_eq:
  "quote s = concat (map (\<lambda>ch. if always_safe ch \<or> ch = CHR ''/'' then [ch]
       else [CHR ''%'', hex_digit (of_char ch div 16), hex_digit (of_char ch mod 16)]) s)"
  by (simp add: quote_def quote_byte_def cong: map_cong)

lemma quote_examples:
  "quote ''a b&c'' = ''a%20b%26c''" "quote ''a/b'' = ''a/b''"
  by (simp_all add: quote_def quote_byte_def always_safe_def hex_digit_def)


lemma scripted_keyword_generator:
  "keyword_generator fixed_collaborators keyword country search_engine
     (test_world key_env [task_answer, pending_answer, ready_answer]) =
   Some (Inr (PList [PStr ''idea one'', PStr ''idea two'']),
         \<lparr>environ = key_env, solver = scripted [task_answer, pending_answer, ready_answer],
          sent = 3,
          trace =
            [Post ''https://api.capsolver.com/createTask''
               (create_task_payload ''secret''
                  (''https://ahrefs.com/keyword-generator/?country='' @ country
                     @ ''&input='' @ quote keyword)),
             Sleep 2,
             Post ''https://api.capsolver.com/getTaskResult''
               (get_task_result_payload ''secret'' (PStr ''task-1'')),
             Sleep 2,
             Post ''https://api.capsolver.com/getTaskResult''
               (get_task_result_payload ''secret'' (PStr ''task-1'')),
             Upstream ''get_keyword_ideas''
               [PStr ''tok-1'', PStr keyword, PStr country, PStr search_engine]]\<rparr>)"
  unfolding keyword_generator_def
  by (simp add: token_for_url_token [OF scripted_run] fixed_collaborators_def call_upstream_def)

lemma scripted_get_traffic:
  "get_traffic fixed_collaborators domain_or_url country mode
     (test_world key_env [task_answer, pending_answer, ready_answer]) =
   Some (Inr (PDict [(''traffic'', PInt 1200)]),
         \<lparr>environ = key_env, solver = scripted [task_answer, pending_answer, ready_answer],
          sent = 3,
          trace =
            [Post ''https://api.capsolver.com/createTask''
               (create_task_payload ''secret''
                  (''https://ahrefs.com/traffic-checker/?input='' @ domain_or_url
                     @ ''&mode='' @ mode)),
             Sleep 2,
             Post ''https://api.capsolver.com/getTaskResult''
               (get_task_result_payload ''secret'' (PStr ''task-1'')),
             Sleep 2,
             Post ''https://api.capsolver.com/getTaskResult''
               (get_task_result_payload ''secret'' (PStr ''task-1'')),
             Upstream ''check_traffic''
               [PStr ''tok-1'', PStr domain_or_url, PStr mode, PStr country]]\<rparr>)"
  unfolding get_traffic_def
  by (simp add: token_for_url_token [OF scripted_run] fixed_collaborators_def call_upstream_def)

section \<open>Answers that end the loop\<close>

lemma poll_loop_ends:
  assumes "\<forall>i<n. poll_answer (solver w (sent w + i)) = Inr None"
    and "poll_answer (solver w (sent w + n)) \<noteq> Inr None"
  shows "\<exists>r w'. poll_loop k t w = Some (r, w')"
proof (cases "poll_answer (solver w (sent w + n))")
  case (Inl e)
  from poll_loop_raises [OF assms(1) Inl] show ?thesis by blast
next
  case (Inr a)
  with assms(2) obtain v where "poll_answer (solver w (sent w + n)) = Inr (Some v)"
    by (cases a) auto
  from poll_loop_returns [OF assms(1) this] show ?thesis by blast
qed

lemma try_block_ends:
  assumes "\<forall>i<n. still_working (solver w (sent w + 1 + i))"
    and "\<not> still_working (solver w (sent w + 1 + n))"
  shows "\<exists>r w'. try_block k u w = Some (r, w')"
proof -
  have go: "\<forall>i<n. poll_answer (solver (submitted k u w) (sent (submitted k u w) + i)) = Inr None"
    using still_working_polls [OF assms(1)] by (simp add: submitted_fields)
  have stop: "poll_answer (solver (submitted k u w) (sent (submitted k u w) + n)) \<noteq> Inr None"
    using assms(2) poll_answer_None [of "solver w (sent w + 1 + n)"]
    by (auto simp: submitted_fields)
  have loop: "\<exists>r w'. poll_loop k t (submitted k u w) = Some (r, w')" for t
    by (rule poll_loop_ends [OF go stop])
  show ?thesis
    using loop by (auto simp: try_block_eq split: sum.splits)
qed

lemma broker_ends:
  assumes "environ w ''CAPSOLVER_API_KEY'' = Some k" and "k \<noteq> []"
    and "\<forall>i<n. still_working (solver w (sent w + 1 + i))"
    and "\<not> still_working (solver w (sent w + 1 + n))"
  shows "\<exists>r w'. get_capsolver_token u w = Some (r, w')"
proof -
  from try_block_ends [OF assms(3,4)] obtain r0 w0 where "try_block k u w = Some (r0, w0)"
    by blast
  then show ?thesis
    by (simp add: broker_with_key [OF assms(1,2)])
qed

lemma gate_returns:
  assumes "token_gate u w res" and "get_capsolver_token u w = Some (r1, w1)"
  shows "\<exists>r w'. res = Some (r, w')"
  using assms
  by (cases res) (auto simp: token_gate_def split: sum.splits if_splits)

lemma gate_sends:
  assumes "token_gate u w res"
    and "environ w ''CAPSOLVER_API_KEY'' = Some k" and "k \<noteq> []"
    and "\<forall>i<n. still_working (solver w (sent w + 1 + i))"
    and "\<not> still_working (solver w (sent w + 1 + n))"
  shows "\<exists>r w' evs. res = Some (r, w') \<and> trace w' = trace w
           @ Post ''https://api.capsolver.com/createTask'' (create_task_payload k u) # evs"
proof -
  from broker_ends [OF assms(2-5)] obtain r1 w1 where
    "get_capsolver_token u w = Some (r1, w1)" by blast
  from gate_returns [OF assms(1) this] obtain r w' where res: "res = Some (r, w')"
    by blast
  from gate_first_post [OF assms(1) res assms(2,3)] res show ?thesis by blast
qed

section \<open>The claims about the target URLs\<close>

text \<open>
  Claim C6, as the code has it. \<^verbatim>\<open>keyword_generator\<close> and \<^verbatim>\<open>keyword_difficulty\<close> put
  \<^verbatim>\<open>urllib.parse.quote(keyword)\<close> into the URL they hand to the broker: with the
  credential set and answers of the solver that end the polling, each of the two tools
  returns, and the first request of its run is the submission for that URL. Every byte
  of the keyword other than an ASCII letter, a digit, one of \<^verbatim>\<open>_.-~\<close>, or a slash is
  replaced by \<^verbatim>\<open>%XX\<close>, so that the encoded keyword consists of those bytes and the
  percent sign: no space and no \<^verbatim>\<open>&\<close> is left in it. The slash is in the default
  \<^verbatim>\<open>safe\<close> argument of \<^verbatim>\<open>quote\<close> and stays as it is: the counterexample below is
  the keyword \<^verbatim>\<open>a/b\<close>, which reaches the broker unchanged.
\<close>

theorem keyword_is_quoted:
  assumes "environ w ''CAPSOLVER_API_KEY'' = Some api_key" and "api_key \<noteq> []"
    and "\<forall>i<n. still_working (solver w (sent w + 1 + i))"
    and "\<not> still_working (solver w (sent w + 1 + n))"
  shows
    "(\<exists>r w' evs. keyword_generator c keyword country search_engine w = Some (r, w')
        \<and> trace w' = trace w
           @ Post ''https://api.capsolver.com/createTask''
               (create_task_payload api_key
                  (''https://ahrefs.com/keyword-generator/?country='' @ country
                     @ ''&input='' @ quote keyword)) # evs)
     \<and> (\<exists>r w' evs. keyword_difficulty c keyword country w = Some (r, w')
        \<and> trace w' = trace w
           @ Post ''https://api.capsolver.com/createTask''
               (create_task_payload api_key
                  (''https://ahrefs.com/keyword-difficulty/?country='' @ country
                     @ ''&input='' @ quote keyword)) # evs)
     \<and> quote keyword =
         concat (map (\<lambda>ch. if always_safe ch \<or> ch = CHR ''/'' then [ch]
                           else [CHR ''%'', hex_digit (of_char ch div 16),
                                 hex_digit (of_char ch mod 16)]) keyword)
     \<and> (\<forall>ch\<in>set (quote keyword). always_safe ch \<or> ch = CHR ''/'' \<or> ch = CHR ''%'')
     \<and> CHR '' '' \<notin> set (quote keyword) \<and> CHR ''&'' \<notin> set (quote keyword)"
proof (intro conjI ballI)
  show "\<exists>r w' evs. keyword_generator c keyword country search_engine w = Some (r, w')
        \<and> trace w' = trace w
           @ Post ''https://api.capsolver.com/createTask''
               (create_task_payload api_key
                  (''https://ahrefs.com/keyword-generator/?country='' @ country
                     @ ''&input='' @ quote keyword)) # evs"
    by (rule gate_sends [OF keyword_generator_gate assms])
next
  show "\<exists>r w' evs. keyword_difficulty c keyword country w = Some (r, w')
        \<and> trace w' = trace w
           @ Post ''https://api.capsolver.com/createTask''
               (create_task_payload api_key
                  (''https://ahrefs.com/keyword-difficulty/?country='' @ country
                     @ ''&input='' @ quote keyword)) # evs"
    by (rule gate_sends [OF keyword_difficulty_gate assms])
next
  show "quote keyword =
         concat (map (\<lambda>ch. if always_safe ch \<or> ch = CHR ''/'' then [ch]
                           else [CHR ''%'', hex_digit (of_char ch div 16),
                                 hex_digit (of_char ch mod 16)]) keyword)"
    by (rule quote_eq)
next
  fix ch assume "ch \<in> set (quote keyword)"
  then show "always_safe ch \<or> ch = CHR ''/'' \<or> ch = CHR ''%''"
    by (rule quote_alphabet)
next
  show "CHR '' '' \<notin> set (quote keyword)" "CHR ''&'' \<notin> set (quote keyword)"
    by (rule quote_no_space_no_ampersand)+
qed

theorem keyword_is_quoted_witness:
  "map_option (hd \<circ> trace \<circ> snd)
     (keyword_generator fixed_collaborators ''a b&c'' ''us'' ''Google''
        (test_world key_env [task_answer, pending_answer, ready_answer])) =
   Some (Post ''https://api.capsolver.com/createTask''
           (create_task_payload ''secret''
              ''https://ahrefs.com/keyword-generator/?country=us&input=a%20b%26c''))
   \<and> map_option (hd \<circ> trace \<circ> snd)
     (keyword_difficulty fixed_collaborators ''a b&c'' ''us''
        (test_world key_env [task_answer, pending_answer, ready_answer])) =
   Some (Post ''https://api.capsolver.com/createTask''
           (create_task_payload ''secret''
              ''https://ahrefs.com/keyword-difficulty/?country=us&input=a%20b%26c''))"
proof -
  let ?w = "test_world key_env [task_answer, pending_answer, ready_answer]"
  have key: "environ ?w ''CAPSOLVER_API_KEY'' = Some ''secret''" "''secret'' \<noteq> []"
    by (simp_all add: test_world_fields key_env_key)
  have polls: "\<forall>i<1. still_working (solver ?w (sent ?w + 1 + i))"
    by (simp add: test_world_fields scripted_3 more_answers)
  have last: "\<not> still_working (solver ?w (sent ?w + 1 + 1))"
    by (simp add: test_world_fields scripted_3 more_answers)
  from keyword_is_quoted [OF key polls last, where c = fixed_collaborators
      and keyword = "''a b&c''" and country = "''us''" and search_engine = "''Google''"]
  obtain r1 w1 evs1 r2 w2 evs2 where
    "keyword_generator fixed_collaborators ''a b&c'' ''us'' ''Google'' ?w = Some (r1, w1)"
    "trace w1 = trace ?w
       @ Post ''https://api.capsolver.com/createTask''
           (create_task_payload ''secret''
              (''https://ahrefs.com/keyword-generator/?country='' @ ''us''
                 @ ''&input='' @ quote ''a b&c'')) # evs1"
    "keyword_difficulty fixed_collaborators ''a b&c'' ''us'' ?w = Some (r2, w2)"
    "trace w2 = trace ?w
       @ Post ''https://api.capsolver.com/createTask''
           (create_task_payload ''secret''
              (''https://ahrefs.com/keyword-difficulty/?country='' @ ''us''
                 @ ''&input='' @ quote ''a b&c'')) # evs2"
    by blast
  then show ?thesis
    by (simp add: test_world_fields quote_examples)
qed

theorem slash_not_quoted_counterexample:
  "keyword_generator fixed_collaborators ''a/b'' ''us'' ''Google''
     (test_world key_env [task_answer, pending_answer, ready_answer]) =
   Some (Inr (PList [PStr ''idea one'', PStr ''idea two'']),
         \<lparr>environ = key_env, solver = scripted [task_answer, pending_answer, ready_answer],
          sent = 3,
          trace =
            [Post ''https://api.capsolver.com/createTask''
               (create_task_payload ''secret''
                  ''https://ahrefs.com/keyword-generator/?country=us&input=a/b''),
             Sleep 2,
             Post ''https://api.capsolver.com/getTaskResult''
               (get_task_result_payload ''secret'' (PStr ''task-1'')),
             Sleep 2,
             Post ''https://api.capsolver.com/getTaskResult''
               (get_task_result_payload ''secret'' (PStr ''task-1'')),
             Upstream ''get_keyword_ideas''
               [PStr ''tok-1'', PStr ''a/b'', PStr ''us'', PStr ''Google'']]\<rparr>)"
  using scripted_keyword_generator [of "''a/b''" "''us''" "''Google''"]
  by (simp add: quote_examples)

text \<open>
  Claim C10. \<^verbatim>\<open>get_backlinks_list\<close> and \<^verbatim>\<open>get_traffic\<close> put their argument into the
  URL as it is: with the credential set and answers of the solver that end the polling,
  each of the two tools returns, and the first request of its run is the submission for
  the URL with the argument between the fixed parts, whatever bytes it holds. The
  witness is the argument \<^verbatim>\<open>a b&c\<close>, given to either tool: its space and \<^verbatim>\<open>&\<close>
  stand unencoded in the URL that the broker submits.
\<close>

theorem domain_is_not_quoted:
  assumes "environ w ''CAPSOLVER_API_KEY'' = Some api_key" and "api_key \<noteq> []"
    and "\<forall>i<n. still_working (solver w (sent w + 1 + i))"
    and "\<not> still_working (solver w (sent w + 1 + n))"
  shows
    "(\<exists>r w' evs. get_backlinks_list c domain w = Some (r, w')
        \<and> trace w' = trace w
           @ Post ''https://api.capsolver.com/createTask''
               (create_task_payload api_key
                  (''https://ahrefs.com/backlink-checker/?input='' @ domain
                     @ ''&mode=subdomains'')) # evs)
     \<and> (\<exists>r w' evs. get_traffic c domain_or_url country mode w = Some (r, w')
        \<and> trace w' = trace w
           @ Post ''https://api.capsolver.com/createTask''
               (create_task_payload api_key
                  (''https://ahrefs.com/traffic-checker/?input='' @ domain_or_url
                     @ ''&mode='' @ mode)) # evs)"
  by (intro conjI gate_sends [OF get_backlinks_list_gate assms]
      gate_sends [OF get_traffic_gate assms])

theorem domain_is_not_quoted_witness:
  "map_option (hd \<circ> trace \<circ> snd)
     (get_backlinks_list fixed_collaborators ''a b&c''
        (test_world key_env [task_answer, pending_answer, ready_answer])) =
   Some (Post ''https://api.capsolver.com/createTask''
           (create_task_payload ''secret''
              ''https://ahrefs.com/backlink-checker/?input=a b&c&mode=subdomains''))
   \<and> map_option (hd \<circ> trace \<circ> snd)
     (get_traffic fixed_collaborators ''a b&c'' ''None'' ''subdomains''
        (test_world key_env [task_answer, pending_answer, ready_answer])) =
   Some (Post ''https://api.capsolver.com/createTask''
           (create_task_payload ''secret''
              ''https://ahrefs.com/traffic-checker/?input=a b&c&mode=subdomains''))"
proof -
  let ?w = "test_world key_env [task_answer, pending_answer, ready_answer]"
  have key: "environ ?w ''CAPSOLVER_API_KEY'' = Some ''secret''" "''secret'' \<noteq> []"
    by (simp_all add: test_world_fields key_env_key)
  have polls: "\<forall>i<1. still_working (solver ?w (sent ?w + 1 + i))"
    by (simp add: test_world_fields scripted_3 more_answers)
  have last: "\<not> still_working (solver ?w (sent ?w + 1 + 1))"
    by (simp add: test_world_fields scripted_3 more_answers)
  from domain_is_not_quoted [OF key polls last, where c = fixed_collaborators
      and domain = "''a b&c''" and domain_or_url = "''a b&c''" and country = "''None''"
      and mode = "''subdomains''"]
  obtain r1 w1 evs1 r2 w2 evs2 where
    "get_backlinks_list fixed_collaborators ''a b&c'' ?w = Some (r1, w1)"
    "trace w1 = trace ?w
       @ Post ''https://api.capsolver.com/createTask''
           (create_task_payload ''secret''
              (''https://ahrefs.com/backlink-checker/?input='' @ ''a b&c''
                 @ ''&mode=subdomains'')) # evs1"
    "get_traffic fixed_collaborators ''a b&c'' ''None'' ''subdomains'' ?w = Some (r2, w2)"
    "trace w2 = trace ?w
       @ Post ''https://api.capsolver.com/createTask''
           (create_task_payload ''secret''
              (''https://ahrefs.com/traffic-checker/?input='' @ ''a b&c''
                 @ ''&mode='' @ ''subdomains'')) # evs2"
    by blast
  then show ?thesis
    by (simp add: test_world_fields)
qed

end
